theory Spec2Isabelle
  imports Main
begin

section \<open>JavaScript strings and JSON values\<close>

text \<open>
  A JavaScript string is a sequence of UTF-16 code units; it is modelled as the list of
  its code units. \<open>str\<close> turns an ASCII literal of the source into that list.
\<close>

type_synonym jstring = "nat list"

definition str :: "string \<Rightarrow> jstring" where
  "str s = map of_char s"

text \<open>
  The values \<open>JSON.parse\<close> can return. The number type is a parameter: the program never
  computes with numbers, it only tests them for truthiness and prints them.
  \<open>undefined\<close> is \<open>None\<close> of \<open>'n jsval\<close>.
\<close>

datatype 'n json =
    JNull
  | JBool bool
  | JNum 'n
  | JStr jstring
  | JArr "'n json list"
  | JObj "(jstring \<times> 'n json) list"

type_synonym 'n jsval = "'n json option"

datatype js_error = Error jstring | TypeError jstring | SyntaxError jstring

fun message :: "js_error \<Rightarrow> jstring" where
  "message (Error m) = m"
| "message (TypeError m) = m"
| "message (SyntaxError m) = m"

text \<open>
  What the JavaScript engine supplies and the repository only calls: \<open>JSON.parse\<close>
  (\<open>Inl m\<close> is a SyntaxError with message \<open>m\<close>), the truthiness and the printing of a
  number, and the message of the TypeError raised by reading a property of \<open>null\<close> or
  \<open>undefined\<close> (or calling a method that is not there, or converting an object that
  has no \<open>toString\<close> to call), given the property's name.
\<close>

record 'n engine =
  JSON_parse :: "jstring \<Rightarrow> jstring + 'n json"
  numberIsTruthy :: "'n \<Rightarrow> bool"
  numberToString :: "'n \<Rightarrow> jstring"
  typeErrorMessage :: "jstring \<Rightarrow> jstring"

text \<open>
  \<open>v.k\<close> for the property names the program reads (action, payload, language, problem,
  image, mimeType, data, prompt, history, message, role, text, problems, fact, error),
  none of which is a property of a string, number, boolean or array.
\<close>

fun get_prop :: "'n engine \<Rightarrow> 'n jsval \<Rightarrow> jstring \<Rightarrow> js_error + 'n jsval" where
  "get_prop eng None k = Inl (TypeError (typeErrorMessage eng k))"
| "get_prop eng (Some JNull) k = Inl (TypeError (typeErrorMessage eng k))"
| "get_prop eng (Some (JObj kvs)) k = Inr (map_of kvs k)"
| "get_prop eng (Some v) k = Inr None"

fun truthy :: "'n engine \<Rightarrow> 'n jsval \<Rightarrow> bool" where
  "truthy eng None = False"
| "truthy eng (Some JNull) = False"
| "truthy eng (Some (JBool b)) = b"
| "truthy eng (Some (JNum n)) = numberIsTruthy eng n"
| "truthy eng (Some (JStr s)) = (s \<noteq> [])"
| "truthy eng (Some (JArr xs)) = True"
| "truthy eng (Some (JObj kvs)) = True"

fun join_comma :: "jstring list \<Rightarrow> jstring" where
  "join_comma [] = []"
| "join_comma [s] = s"
| "join_comma (s # t # ss) = s @ str '','' @ join_comma (t # ss)"

text \<open>The results of a list of conversions, or the first error among them.\<close>

fun first_error :: "('e + 'a) list \<Rightarrow> 'e + 'a list" where
  "first_error [] = Inr []"
| "first_error (Inl e # rs) = Inl e"
| "first_error (Inr x # rs) =
     (case first_error rs of Inl e \<Rightarrow> Inl e | Inr xs \<Rightarrow> Inr (x # xs))"

text \<open>
  The string a value becomes in a string concatenation or a template literal. An array is
  its elements joined by commas, with \<open>null\<close> printed as the empty string there. An
  object is printed by the \<open>toString\<close> it inherits; a parsed object that has a key
  \<open>toString\<close> of its own hides that method behind a value that cannot be called, and
  the conversion throws a TypeError.
\<close>

fun toString :: "'n engine \<Rightarrow> 'n json \<Rightarrow> js_error + jstring" where
  "toString eng JNull = Inr (str ''null'')"
| "toString eng (JBool b) = Inr (if b then str ''true'' else str ''false'')"
| "toString eng (JNum n) = Inr (numberToString eng n)"
| "toString eng (JStr s) = Inr s"
| "toString eng (JArr xs) =
     (case first_error (map (\<lambda>x. if x = JNull then Inr [] else toString eng x) xs) of
        Inl e \<Rightarrow> Inl e
      | Inr ss \<Rightarrow> Inr (join_comma ss))"
| "toString eng (JObj kvs) =
     (if map_of kvs (str ''toString'') = None then Inr (str ''[object Object]'')
      else Inl (TypeError (typeErrorMessage eng (str ''toString''))))"

fun template :: "'n engine \<Rightarrow> 'n jsval \<Rightarrow> js_error + jstring" where
  "template eng None = Inr (str ''undefined'')"
| "template eng (Some v) = toString eng v"

text \<open>
  An object literal \<open>{k1: v1, ...}\<close> as it is serialised: a property whose value is
  \<open>undefined\<close> is left out.
\<close>

fun object_literal :: "(jstring \<times> 'n jsval) list \<Rightarrow> 'n json" where
  "object_literal kvs =
     JObj (concat (map (\<lambda>(k, v). case v of None \<Rightarrow> [] | Some x \<Rightarrow> [(k, x)]) kvs))"

text \<open>
  \<open>String.prototype.trim\<close>: the white space and line terminator code units of
  ECMAScript are removed at both ends.
\<close>

definition is_space :: "nat \<Rightarrow> bool" where
  "is_space c \<longleftrightarrow>
     c \<in> {9, 10, 11, 12, 13, 32, 160, 5760, 8232, 8233, 8239, 8287, 12288, 65279}
     \<or> (8192 \<le> c \<and> c \<le> 8202)"

definition trim :: "jstring \<Rightarrow> jstring" where
  "trim s = rev (dropWhile is_space (rev (dropWhile is_space s)))"

section \<open>The frontend service client (services/geminiService.ts)\<close>

record 'n fetch_request =
  url :: jstring
  http_method :: jstring
  content_type :: jstring
  body :: "'n json"

text \<open>
  A response as \<open>fetch\<close> delivers it: \<open>json_result\<close> is what \<open>response.json()\<close>
  resolves or rejects to, \<open>body_stream\<close> is \<open>response.body\<close>, the chunks of bytes a
  reader will receive (\<open>None\<close> is \<open>null\<close>).
\<close>

record 'n http_response =
  status :: nat
  statusText :: jstring
  json_result :: "js_error + 'n json"
  body_stream :: "nat list list option"

definition ok :: "'n http_response \<Rightarrow> bool" where
  "ok r \<longleftrightarrow> 200 \<le> status r \<and> status r \<le> 299"

type_synonym 'n fetch = "'n fetch_request \<Rightarrow> js_error + 'n http_response"

datatype 'n post_result = ResponseObject "'n http_response" | JsonValue "'n json"

definition action_request :: "jstring \<Rightarrow> 'n json \<Rightarrow> 'n fetch_request" where
  "action_request action payload =
     \<lparr> url = str ''/api/gemini'', http_method = str ''POST'',
       content_type = str ''application/json'',
       body = JObj [(str ''action'', JStr action), (str ''payload'', payload)] \<rparr>"

definition postToAction ::
  "'n engine \<Rightarrow> 'n fetch \<Rightarrow> jstring \<Rightarrow> 'n json \<Rightarrow> js_error + 'n post_result" where
  "postToAction eng fetch action payload =
     (case fetch (action_request action payload) of
        Inl e \<Rightarrow> Inl e
      | Inr response \<Rightarrow>
          if \<not> ok response then
            (let errorBody =
               (case json_result response of
                  Inl _ \<Rightarrow> JObj [(str ''error'', JStr (str ''Failed to parse error response''))]
                | Inr b \<Rightarrow> b)
             in case get_prop eng (Some errorBody) (str ''error'') of
                  Inl e \<Rightarrow> Inl e
                | Inr err \<Rightarrow>
                    (case template eng err of
                       Inl e \<Rightarrow> Inl e
                     | Inr s \<Rightarrow>
                         Inl (Error (str ''API Error: '' @ statusText response @ str '' - ''
                                     @ s))))
          else if action = str ''chat'' then Inr (ResponseObject response)
          else (case json_result response of
                  Inl e \<Rightarrow> Inl e
                | Inr v \<Rightarrow> Inr (JsonValue v)))"

definition fallback_problem_1 :: "jstring \<Rightarrow> jstring" where
  "fallback_problem_1 language =
     (if language = str ''ar''
      then [0x62D, 0x644, 0x20, 0x644, 0x640, 0x20, 0x633, 0x3A, 0x20, 0x33, 0x633, 0x20,
            0x2D, 0x20, 0x37, 0x20, 0x3D, 0x20, 0x35]
      else str ''Solve for x: 3x - 7 = 5'')"

definition fallback_problem_2 :: "jstring \<Rightarrow> jstring" where
  "fallback_problem_2 language =
     (if language = str ''ar''
      then [0x645, 0x627, 0x20, 0x647, 0x64A, 0x20, 0x645, 0x633, 0x627, 0x62D, 0x629,
            0x20, 0x62F, 0x627, 0x626, 0x631, 0x629, 0x20, 0x646, 0x635, 0x641, 0x20,
            0x642, 0x637, 0x631, 0x647, 0x627, 0x20, 0x35, 0x61F]
      else str ''What is the area of a circle with a radius of 5?'')"

definition fallback_fact :: "jstring \<Rightarrow> jstring" where
  "fallback_fact language =
     (if language = str ''ar''
      then [0x627, 0x644, 0x635, 0x641, 0x631, 0x20, 0x647, 0x648, 0x20, 0x627, 0x644,
            0x639, 0x62F, 0x62F, 0x20, 0x627, 0x644, 0x635, 0x62D, 0x64A, 0x62D, 0x20,
            0x627, 0x644, 0x648, 0x62D, 0x64A, 0x62F, 0x20, 0x627, 0x644, 0x630, 0x64A,
            0x20, 0x644, 0x64A, 0x633, 0x20, 0x645, 0x648, 0x62C, 0x628, 0x64B, 0x627,
            0x20, 0x648, 0x644, 0x627, 0x20, 0x633, 0x627, 0x644, 0x628, 0x64B, 0x627,
            0x2E]
      else str ''Zero is the only integer that is neither positive nor negative.'')"

definition fallback :: "jstring \<Rightarrow> 'n json" where
  "fallback language =
     JObj [(str ''examples'',
            JArr [JObj [(str ''id'', JStr (str ''fallback-1'')),
                        (str ''problem'', JStr (fallback_problem_1 language))],
                  JObj [(str ''id'', JStr (str ''fallback-2'')),
                        (str ''problem'', JStr (fallback_problem_2 language))] ]),
           (str ''fact'', JStr (fallback_fact language))]"

definition generateInitialData :: "'n engine \<Rightarrow> 'n fetch \<Rightarrow> jstring \<Rightarrow> 'n post_result" where
  "generateInitialData eng fetch language =
     (case postToAction eng fetch (str ''generateInitialData'')
             (JObj [(str ''language'', JStr language)]) of
        Inr v \<Rightarrow> v
      | Inl error \<Rightarrow> JsonValue (fallback language))"

definition solveProblem ::
  "'n engine \<Rightarrow> 'n fetch \<Rightarrow> 'n json \<Rightarrow> jstring \<Rightarrow> js_error + 'n post_result" where
  "solveProblem eng fetch problem language =
     (case postToAction eng fetch (str ''solveProblem'')
             (JObj [(str ''problem'', problem), (str ''language'', JStr language)]) of
        Inr v \<Rightarrow> Inr v
      | Inl error \<Rightarrow>
          Inl (Error (str ''Failed to get a valid response from the AI. Please try again.'')))"

section \<open>The AI provider as the dispatcher sees it\<close>

datatype schema = solutionResponseSchema | exampleProblemsSchema | mathFactSchema

datatype 'n part = InlineData "'n jsval" "'n jsval" | TextPart "'n jsval"

datatype 'n contents = Prompt jstring | Parts "'n part list"

record 'n generate_params =
  model :: jstring
  contents :: "'n contents"
  systemInstruction :: "jstring option"
  responseMimeType :: jstring
  responseSchema :: schema

datatype 'n content = Content (role: "'n jsval") (parts: "'n part list")

record 'n chat_params =
  chat_model :: jstring
  chat_systemInstruction :: jstring
  history :: "'n content list"
  chat_message :: "'n jsval"

datatype 'n provider_call =
    GenerateContent "'n generate_params"
  | SendMessageStream "'n chat_params"

text \<open>
  What the provider answers. \<open>generateContent\<close> rejects or resolves to a response whose
  \<open>text\<close> may be \<open>undefined\<close>. \<open>sendMessageStream\<close> rejects or resolves to a stream:
  the \<open>text\<close> of each chunk, and the error that ends the stream if it ends with one.
  When both calls of a \<open>Promise.all\<close> reject, \<open>fact_rejects_first\<close> says whose
  rejection it reports.
\<close>

record 'n provider =
  generateContent :: "'n generate_params \<Rightarrow> js_error + jstring option"
  sendMessageStream :: "'n chat_params \<Rightarrow> js_error + (jstring option list \<times> js_error option)"
  fact_rejects_first :: bool

section \<open>The backend dispatcher (the \<open>handler\<close> of the serverless function)\<close>

text \<open>
  What the handler reads from outside: the environment variable \<open>API_KEY\<close> (\<open>None\<close>
  when unset) and the two system instructions, constants of \<open>constants.ts\<close>, which is
  not among the sources; they are parameters.
\<close>

record environment =
  API_KEY :: "jstring option"
  SOLVER_SYSTEM_INSTRUCTION :: jstring
  CHAT_SYSTEM_INSTRUCTION :: jstring

record 'n request =
  req_method :: jstring
  req_body :: "'n jsval"

text \<open>The calls the handler makes on \<open>res\<close>, in order.\<close>

datatype 'n res_op =
    Status nat
  | Json "'n json"
  | SetHeader jstring jstring
  | Write jstring
  | End

text \<open>
  A run of the handler: the calls on \<open>res\<close>, the provider calls issued, and the
  exception that left the handler, if one did.
\<close>

record 'n run =
  res_ops :: "'n res_op list"
  calls :: "'n provider_call list"
  uncaught :: "js_error option"

text \<open>
  What the calls on \<open>res\<close> send as JSON: \<open>res.status(n)\<close> sets the status code of the
  response and \<open>res.json(v)\<close> sends \<open>v\<close> with the status code in force, which is 200
  until it is set. \<open>json_responses st ops\<close> lists the status and the body of each
  \<open>res.json\<close> among \<open>ops\<close>, starting with the status code \<open>st\<close>.
\<close>

fun json_responses :: "nat \<Rightarrow> 'n res_op list \<Rightarrow> (nat \<times> 'n json) list" where
  "json_responses st [] = []"
| "json_responses st (Status n # ops) = json_responses n ops"
| "json_responses st (Json v # ops) = (st, v) # json_responses st ops"
| "json_responses st (SetHeader k v # ops) = json_responses st ops"
| "json_responses st (Write s # ops) = json_responses st ops"
| "json_responses st (End # ops) = json_responses st ops"

text \<open>The state of a \<open>try\<close> body when it ends: \<open>Some e\<close> when it threw \<open>e\<close>.\<close>

type_synonym 'n attempt = "'n res_op list \<times> 'n provider_call list \<times> js_error option"

definition langName :: "'n jsval \<Rightarrow> jstring" where
  "langName language =
     (if language = Some (JStr (str ''ar'')) then str ''Arabic'' else str ''English'')"

text \<open>\<open>JSON.parse(response.text.trim())\<close>\<close>

definition parse_response_text :: "'n engine \<Rightarrow> jstring option \<Rightarrow> js_error + 'n json" where
  "parse_response_text eng text =
     (case text of
        None \<Rightarrow> Inl (TypeError (typeErrorMessage eng (str ''trim'')))
      | Some s \<Rightarrow>
          (case JSON_parse eng (trim s) of
             Inl m \<Rightarrow> Inl (SyntaxError m)
           | Inr v \<Rightarrow> Inr v))"

definition examples_call :: "'n jsval \<Rightarrow> 'n generate_params" where
  "examples_call language =
     \<lparr> model = str ''gemini-2.5-flash'',
       contents = Prompt (str ''Generate 4 diverse and simple math problems suitable for an educational app. Provide a unique id for each. Your response must be in ''
                          @ langName language @ str ''.''),
       systemInstruction = None,
       responseMimeType = str ''application/json'',
       responseSchema = exampleProblemsSchema \<rparr>"

definition fact_call :: "'n jsval \<Rightarrow> 'n generate_params" where
  "fact_call language =
     \<lparr> model = str ''gemini-2.5-flash'',
       contents = Prompt (str ''Provide one surprising and fun math fact of the day. Keep it short and easy to understand. Your response must be in ''
                          @ langName language @ str ''.''),
       systemInstruction = None,
       responseMimeType = str ''application/json'',
       responseSchema = mathFactSchema \<rparr>"

text \<open>
  \<open>Promise.all\<close> of two calls, both issued before either is awaited: it rejects with the
  rejection that comes first, and resolves to both responses otherwise.
\<close>

definition promise_all ::
  "bool \<Rightarrow> js_error + 'a \<Rightarrow> js_error + 'b \<Rightarrow> js_error + ('a \<times> 'b)" where
  "promise_all second_first r1 r2 =
     (case (r1, r2) of
        (Inl e1, Inl e2) \<Rightarrow> Inl (if second_first then e2 else e1)
      | (Inl e1, Inr _) \<Rightarrow> Inl e1
      | (Inr _, Inl e2) \<Rightarrow> Inl e2
      | (Inr a, Inr b) \<Rightarrow> Inr (a, b))"

text \<open>
  The case \<open>generateInitialData\<close>. In
  \<open>res.status(200).json({ examples: examplesParsed.problems, fact: factParsed.fact })\<close>
  the call \<open>res.status(200)\<close> is made before the object literal is evaluated, so a read
  that throws there comes after the status was set to 200.
\<close>

definition generateInitialData_case ::
  "'n engine \<Rightarrow> 'n provider \<Rightarrow> 'n jsval \<Rightarrow> 'n attempt" where
  "generateInitialData_case eng ai payload =
     (case get_prop eng payload (str ''language'') of
        Inl e \<Rightarrow> ([], [], Some e)
      | Inr language \<Rightarrow>
          (let issued = [GenerateContent (examples_call language),
                         GenerateContent (fact_call language)]
           in case promise_all (fact_rejects_first ai)
                     (generateContent ai (examples_call language))
                     (generateContent ai (fact_call language)) of
                Inl e \<Rightarrow> ([], issued, Some e)
              | Inr (examplesResponse, factResponse) \<Rightarrow>
                  (case parse_response_text eng examplesResponse of
                     Inl e \<Rightarrow> ([], issued, Some e)
                   | Inr examplesParsed \<Rightarrow>
                       (case parse_response_text eng factResponse of
                          Inl e \<Rightarrow> ([], issued, Some e)
                        | Inr factParsed \<Rightarrow>
                            (case get_prop eng (Some examplesParsed) (str ''problems'') of
                               Inl e \<Rightarrow> ([Status 200], issued, Some e)
                             | Inr problems \<Rightarrow>
                                 (case get_prop eng (Some factParsed) (str ''fact'') of
                                    Inl e \<Rightarrow> ([Status 200], issued, Some e)
                                  | Inr fact' \<Rightarrow>
                                      ([Status 200,
                                        Json (object_literal
                                                [(str ''examples'', problems),
                                                 (str ''fact'', fact')])],
                                       issued, None)))))))"

text \<open>
  The \<open>contents\<close> of a solve request: the problem itself when it is a string, otherwise
  an image part and a text part read from it.
\<close>

definition solve_contents :: "'n engine \<Rightarrow> 'n jsval \<Rightarrow> js_error + 'n contents" where
  "solve_contents eng problem =
     (case problem of
        Some (JStr s) \<Rightarrow> Inr (Prompt s)
      | _ \<Rightarrow>
          (case get_prop eng problem (str ''image'') of
             Inl e \<Rightarrow> Inl e
           | Inr image' \<Rightarrow>
               (case get_prop eng image' (str ''mimeType'') of
                  Inl e \<Rightarrow> Inl e
                | Inr mimeType \<Rightarrow>
                    (case get_prop eng image' (str ''data'') of
                       Inl e \<Rightarrow> Inl e
                     | Inr data \<Rightarrow>
                         (case get_prop eng problem (str ''prompt'') of
                            Inl e \<Rightarrow> Inl e
                          | Inr prompt \<Rightarrow>
                              Inr (Parts [InlineData mimeType data, TextPart prompt]))))))"

definition solve_call :: "environment \<Rightarrow> 'n contents \<Rightarrow> 'n jsval \<Rightarrow> 'n generate_params" where
  "solve_call env cs language =
     \<lparr> model = str ''gemini-2.5-flash'',
       contents = cs,
       systemInstruction =
         Some (SOLVER_SYSTEM_INSTRUCTION env
               @ [10, 10] @ str ''You must provide your entire response in ''
               @ langName language @ str ''.''),
       responseMimeType = str ''application/json'',
       responseSchema = solutionResponseSchema \<rparr>"

text \<open>
  The case \<open>solveProblem\<close>. In \<open>res.status(200).json(JSON.parse(response.text.trim()))\<close>
  the call \<open>res.status(200)\<close> is made before the argument is evaluated, so a text that
  is missing or does not parse throws after the status was set to 200.
\<close>

definition solveProblem_case ::
  "'n engine \<Rightarrow> environment \<Rightarrow> 'n provider \<Rightarrow> 'n jsval \<Rightarrow> 'n attempt" where
  "solveProblem_case eng env ai payload =
     (case get_prop eng payload (str ''problem'') of
        Inl e \<Rightarrow> ([], [], Some e)
      | Inr problem \<Rightarrow>
          (case get_prop eng payload (str ''language'') of
             Inl e \<Rightarrow> ([], [], Some e)
           | Inr language \<Rightarrow>
               (case solve_contents eng problem of
                  Inl e \<Rightarrow> ([], [], Some e)
                | Inr cs \<Rightarrow>
                    (let issued = [GenerateContent (solve_call env cs language)]
                     in case generateContent ai (solve_call env cs language) of
                          Inl e \<Rightarrow> ([], issued, Some e)
                        | Inr response \<Rightarrow>
                            (case parse_response_text eng response of
                               Inl e \<Rightarrow> ([Status 200], issued, Some e)
                             | Inr v \<Rightarrow> ([Status 200, Json v], issued, None))))))"

text \<open>
  \<open>JSON.stringify({ text: chunk.text })\<close>, after ECMAScript's QuoteJSONString: the
  quotation mark, the backslash and the control characters are escaped, a surrogate that
  is not part of a pair is written as an escape of four hexadecimal digits, every other code unit is kept.
  A \<open>text\<close> that is \<open>undefined\<close> leaves the empty object.
\<close>

definition hex_digit :: "nat \<Rightarrow> nat" where
  "hex_digit n = (if n < 10 then 48 + n else 87 + n)"

definition unicode_escape :: "nat \<Rightarrow> jstring" where
  "unicode_escape c =
     [92, 117, hex_digit (c div 4096 mod 16), hex_digit (c div 256 mod 16),
      hex_digit (c div 16 mod 16), hex_digit (c mod 16)]"

definition is_leading_surrogate :: "nat \<Rightarrow> bool" where
  "is_leading_surrogate c \<longleftrightarrow> 0xD800 \<le> c \<and> c \<le> 0xDBFF"

definition is_trailing_surrogate :: "nat \<Rightarrow> bool" where
  "is_trailing_surrogate c \<longleftrightarrow> 0xDC00 \<le> c \<and> c \<le> 0xDFFF"

definition quote_unit :: "nat \<Rightarrow> jstring" where
  "quote_unit c =
     (if c = 8 then [92, 98]
      else if c = 9 then [92, 116]
      else if c = 10 then [92, 110]
      else if c = 12 then [92, 102]
      else if c = 13 then [92, 114]
      else if c = 34 then [92, 34]
      else if c = 92 then [92, 92]
      else if c < 32 \<or> is_leading_surrogate c \<or> is_trailing_surrogate c
        then unicode_escape c
      else [c])"

fun quote_units :: "jstring \<Rightarrow> jstring" where
  "quote_units [] = []"
| "quote_units [c] = quote_unit c"
| "quote_units (c # d # cs) =
     (if is_leading_surrogate c \<and> is_trailing_surrogate d
      then c # d # quote_units cs
      else quote_unit c @ quote_units (d # cs))"

definition QuoteJSONString :: "jstring \<Rightarrow> jstring" where
  "QuoteJSONString s = [34] @ quote_units s @ [34]"

definition stringify_text_record :: "jstring option \<Rightarrow> jstring" where
  "stringify_text_record text =
     (case text of
        None \<Rightarrow> [123, 125]
      | Some s \<Rightarrow> [123, 34] @ str ''text'' @ [34, 58] @ QuoteJSONString s @ [125])"

text \<open>
  \<open>history.map(msg => ({ role: msg.role, parts: [{ text: msg.text }] }))\<close>: the callback
  throws at an element that is \<open>null\<close>, and \<open>map\<close> is there only when \<open>history\<close> is an
  array.
\<close>

fun toGeminiHistory :: "'n engine \<Rightarrow> 'n json list \<Rightarrow> js_error + 'n content list" where
  "toGeminiHistory eng [] = Inr []"
| "toGeminiHistory eng (msg # rest) =
     (case get_prop eng (Some msg) (str ''role'') of
        Inl e \<Rightarrow> Inl e
      | Inr r \<Rightarrow>
          (case get_prop eng (Some msg) (str ''text'') of
             Inl e \<Rightarrow> Inl e
           | Inr t \<Rightarrow>
               (case toGeminiHistory eng rest of
                  Inl e \<Rightarrow> Inl e
                | Inr turns \<Rightarrow> Inr (Content r [TextPart t] # turns))))"

definition history_map :: "'n engine \<Rightarrow> 'n jsval \<Rightarrow> js_error + 'n content list" where
  "history_map eng hist =
     (case hist of
        Some (JArr msgs) \<Rightarrow> toGeminiHistory eng msgs
      | _ \<Rightarrow> Inl (TypeError (typeErrorMessage eng (str ''map''))))"

definition chat_call ::
  "environment \<Rightarrow> 'n content list \<Rightarrow> 'n jsval \<Rightarrow> 'n jsval \<Rightarrow> 'n chat_params" where
  "chat_call env geminiHistory msg language =
     \<lparr> chat_model = str ''gemini-2.5-flash'',
       chat_systemInstruction =
         CHAT_SYSTEM_INSTRUCTION env
         @ [10, 10] @ str ''You must provide your entire response in ''
         @ langName language @ str ''.'',
       history = geminiHistory,
       chat_message = msg \<rparr>"

definition stream_headers :: "'n res_op list" where
  "stream_headers =
     [SetHeader (str ''Content-Type'') (str ''text/plain; charset=utf-8''),
      SetHeader (str ''Transfer-Encoding'') (str ''chunked'')]"

definition write_chunk :: "jstring option \<Rightarrow> 'n res_op" where
  "write_chunk text = Write (stringify_text_record text @ [10])"

definition chat_case ::
  "'n engine \<Rightarrow> environment \<Rightarrow> 'n provider \<Rightarrow> 'n jsval \<Rightarrow> 'n attempt" where
  "chat_case eng env ai payload =
     (case get_prop eng payload (str ''history'') of
        Inl e \<Rightarrow> ([], [], Some e)
      | Inr hist \<Rightarrow>
          (case get_prop eng payload (str ''message'') of
             Inl e \<Rightarrow> ([], [], Some e)
           | Inr msg \<Rightarrow>
               (case get_prop eng payload (str ''language'') of
                  Inl e \<Rightarrow> ([], [], Some e)
                | Inr language \<Rightarrow>
                    (case history_map eng hist of
                       Inl e \<Rightarrow> ([], [], Some e)
                     | Inr geminiHistory \<Rightarrow>
                         (let issued = [SendMessageStream
                                          (chat_call env geminiHistory msg language)]
                          in case sendMessageStream ai
                                    (chat_call env geminiHistory msg language) of
                               Inl e \<Rightarrow> ([], issued, Some e)
                             | Inr (chunks, failure) \<Rightarrow>
                                 (case failure of
                                    Some e \<Rightarrow>
                                      (stream_headers @ map write_chunk chunks,
                                       issued, Some e)
                                  | None \<Rightarrow>
                                      (stream_headers @ map write_chunk chunks @ [End],
                                       issued, None)))))))"

definition error_body :: "jstring \<Rightarrow> 'n json" where
  "error_body m = JObj [(str ''error'', JStr m)]"

text \<open>The \<open>switch\<close> inside the \<open>try\<close>.\<close>

definition dispatch ::
  "'n engine \<Rightarrow> environment \<Rightarrow> 'n provider \<Rightarrow> 'n jsval \<Rightarrow> 'n jsval \<Rightarrow> 'n attempt" where
  "dispatch eng env ai action payload =
     (if action = Some (JStr (str ''generateInitialData''))
        then generateInitialData_case eng ai payload
      else if action = Some (JStr (str ''solveProblem''))
        then solveProblem_case eng env ai payload
      else if action = Some (JStr (str ''chat''))
        then chat_case eng env ai payload
      else ([Status 400, Json (error_body (str ''Invalid action''))], [], None))"

text \<open>
  The handler. \<open>!process.env.API_KEY\<close> holds for an unset and for an empty variable.
  The body is destructured before the \<open>try\<close>, so a body that is \<open>null\<close> or
  \<open>undefined\<close> makes the handler throw; what the \<open>try\<close> body throws is answered by
  the \<open>catch\<close>.
\<close>

definition handler ::
  "'n engine \<Rightarrow> environment \<Rightarrow> 'n provider \<Rightarrow> 'n request \<Rightarrow> 'n run" where
  "handler eng env ai req =
     (if req_method req \<noteq> str ''POST'' then
        \<lparr> res_ops = [Status 405, Json (error_body (str ''Method Not Allowed''))],
          calls = [], uncaught = None \<rparr>
      else if API_KEY env = None \<or> API_KEY env = Some [] then
        \<lparr> res_ops = [Status 500,
                     Json (error_body (str ''API_KEY is not configured on the server.''))],
          calls = [], uncaught = None \<rparr>
      else
        (case get_prop eng (req_body req) (str ''action'') of
           Inl e \<Rightarrow> \<lparr> res_ops = [], calls = [], uncaught = Some e \<rparr>
         | Inr action \<Rightarrow>
             (case get_prop eng (req_body req) (str ''payload'') of
                Inl e \<Rightarrow> \<lparr> res_ops = [], calls = [], uncaught = Some e \<rparr>
              | Inr payload \<Rightarrow>
                  (case dispatch eng env ai action payload of
                     (ops, issued, None) \<Rightarrow>
                       \<lparr> res_ops = ops, calls = issued, uncaught = None \<rparr>
                   | (ops, issued, Some error) \<Rightarrow>
                       \<lparr> res_ops = ops @
                           [Status 500,
                            Json (error_body (str ''An internal server error occurred: ''
                                              @ message error))],
                         calls = issued, uncaught = None \<rparr>))))"

section \<open>Chat messages (types.ts)\<close>

text \<open>
  Modelled from the spec: the declarations of \<open>ChatRole\<close> and \<open>ChatMessage\<close> are not
  among the sources. The spec has a history of \<open>{role, text}\<close> records with role in
  {user, model}.
\<close>

datatype ChatRole = USER | MODEL

fun role_value :: "ChatRole \<Rightarrow> jstring" where
  "role_value USER = str ''user''"
| "role_value MODEL = str ''model''"

record ChatMessage =
  msg_role :: ChatRole
  msg_text :: jstring

definition message_json :: "ChatMessage \<Rightarrow> 'n json" where
  "message_json m =
     JObj [(str ''role'', JStr (role_value (msg_role m))), (str ''text'', JStr (msg_text m))]"

definition chat_payload :: "ChatMessage list \<Rightarrow> jstring \<Rightarrow> jstring \<Rightarrow> 'n json" where
  "chat_payload hist msg language =
     JObj [(str ''history'', JArr (map message_json hist)),
           (str ''message'', JStr msg),
           (str ''language'', JStr language)]"

section \<open>The chat client's stream reader (components/Chat.tsx, \<open>handleSend\<close>)\<close>

text \<open>\<open>buffer.split('\n')\<close>: always at least one piece.\<close>

fun split_newline :: "jstring \<Rightarrow> jstring list" where
  "split_newline [] = [ [] ]"
| "split_newline (c # cs) =
     (if c = 10 then [] # split_newline cs
      else (case split_newline cs of
              [] \<Rightarrow> [ [c] ]
            | l # ls \<Rightarrow> (c # l) # ls))"

text \<open>\<open>lines.pop() || ''\<close>\<close>

definition pop_or_empty :: "jstring list \<Rightarrow> jstring" where
  "pop_or_empty lines = (if lines = [] then [] else last lines)"

text \<open>
  The body of the \<open>for\<close> loop over the complete lines: what \<open>modelResponseText\<close> is
  after the line. Whatever \<open>JSON.parse\<close>, the read of \<open>chunk.text\<close> or the
  conversion of \<open>chunk.text\<close> to a string throws is caught and logged.
\<close>

definition process_line :: "'n engine \<Rightarrow> jstring \<Rightarrow> jstring \<Rightarrow> jstring" where
  "process_line eng modelResponseText line =
     (if trim line = [] then modelResponseText
      else (case JSON_parse eng line of
              Inl _ \<Rightarrow> modelResponseText
            | Inr chunk \<Rightarrow>
                (case get_prop eng (Some chunk) (str ''text'') of
                   Inl _ \<Rightarrow> modelResponseText
                 | Inr text \<Rightarrow>
                     if truthy eng text then
                       (case template eng text of
                          Inl _ \<Rightarrow> modelResponseText
                        | Inr s \<Rightarrow> modelResponseText @ s)
                     else modelResponseText)))"

text \<open>
  \<open>decoder.decode(value, { stream: true })\<close>: the TextDecoder is the platform's; it
  is a parameter, a function of its state and the bytes read that gives the text decoded
  and its next state.
\<close>

type_synonym 'd decoder = "'d \<Rightarrow> nat list \<Rightarrow> jstring \<times> 'd"

record 'd reader_state =
  decoder_state :: 'd
  buffer :: jstring
  modelResponseText :: jstring

definition read_step ::
  "'n engine \<Rightarrow> 'd decoder \<Rightarrow> 'd reader_state \<Rightarrow> nat list \<Rightarrow> 'd reader_state" where
  "read_step eng decode st v =
     (case decode (decoder_state st) v of
        (s, d') \<Rightarrow>
          (let lines = split_newline (buffer st @ s)
           in \<lparr> decoder_state = d',
                buffer = pop_or_empty lines,
                modelResponseText =
                  fold (\<lambda>line acc. process_line eng acc line) (butlast lines)
                    (modelResponseText st) \<rparr>))"

text \<open>
  The \<open>while\<close> loop: one step for each chunk read, until the stream is done. The
  update of the displayed message after each delta copies \<open>modelResponseText\<close> and is
  left out, as is a read that rejects, which leaves the loop through the outer \<open>catch\<close>.
\<close>

definition read_loop ::
  "'n engine \<Rightarrow> 'd decoder \<Rightarrow> 'd \<Rightarrow> nat list list \<Rightarrow> 'd reader_state" where
  "read_loop eng decode d0 chunks =
     fold (\<lambda>v st. read_step eng decode st v) chunks
       \<lparr> decoder_state = d0, buffer = [], modelResponseText = [] \<rparr>"

text \<open>All the text the decoder gives for the chunks of a stream, in order.\<close>

fun decoded :: "'d decoder \<Rightarrow> 'd \<Rightarrow> nat list list \<Rightarrow> jstring" where
  "decoded decode d [] = []"
| "decoded decode d (v # vs) = (case decode d v of (s, d') \<Rightarrow> s @ decoded decode d' vs)"


section \<open>Concrete inputs\<close>

text \<open>
  A small engine over integer numbers, a parser that knows a handful of texts, and
  networks that fail or answer, used to run the definitions on concrete inputs.
\<close>

definition quoted :: "string \<Rightarrow> jstring" where
  "quoted s = [34] @ str s @ [34]"

definition problems_text :: jstring where
  "problems_text =
     [123] @ quoted ''problems'' @ [58, 91, 123] @ quoted ''id'' @ [58] @ quoted ''p1''
     @ [44] @ quoted ''problem'' @ [58] @ quoted ''1+1'' @ [125, 93, 125]"

definition fact_text :: jstring where
  "fact_text = [123] @ quoted ''fact'' @ [58] @ quoted ''Zero is even.'' @ [125]"

definition shadowed_text :: jstring where
  "shadowed_text =
     [123] @ quoted ''text'' @ [58, 123] @ quoted ''toString'' @ [58] @ str ''7'' @ [125, 125]"

definition known_texts :: "(jstring \<times> int json) list" where
  "known_texts =
     [([123] @ quoted ''text'' @ [58] @ quoted ''Hi'' @ [125],
       JObj [(str ''text'', JStr (str ''Hi''))]),
      ([123] @ quoted ''text'' @ [58] @ quoted ''!'' @ [125],
       JObj [(str ''text'', JStr (str ''!''))]),
      ([123] @ quoted ''text'' @ [58] @ str ''7'' @ [125],
       JObj [(str ''text'', JNum 7)]),
      (shadowed_text, JObj [(str ''text'', JObj [(str ''toString'', JNum 7)])]),
      (str ''null'', JNull),
      (str ''7'', JNum 7),
      (str ''{}'', JObj []),
      (problems_text,
       JObj [(str ''problems'',
              JArr [JObj [(str ''id'', JStr (str ''p1'')),
                          (str ''problem'', JStr (str ''1+1''))] ])]),
      (fact_text, JObj [(str ''fact'', JStr (str ''Zero is even.''))])]"

definition sample_parse :: "jstring \<Rightarrow> jstring + int json" where
  "sample_parse s =
     (case map_of known_texts s of
        Some v \<Rightarrow> Inr v
      | None \<Rightarrow> Inl (str ''Unexpected token''))"

definition sample_engine :: "int engine" where
  "sample_engine =
     \<lparr> JSON_parse = sample_parse,
       numberIsTruthy = (\<lambda>n. n \<noteq> 0),
       numberToString = (\<lambda>n. if n = 7 then str ''7'' else str ''0''),
       typeErrorMessage = (\<lambda>k. str ''Cannot read properties of undefined (reading '' @ k @ str '')'') \<rparr>"

definition offline :: "int fetch" where
  "offline req = Inl (TypeError (str ''Failed to fetch''))"

definition answering :: "int json \<Rightarrow> int fetch" where
  "answering v req =
     Inr \<lparr> status = 200, statusText = str ''OK'', json_result = Inr v, body_stream = None \<rparr>"

definition sample_env :: environment where
  "sample_env =
     \<lparr> API_KEY = Some (str ''key''),
       SOLVER_SYSTEM_INSTRUCTION = str ''Solve.'',
       CHAT_SYSTEM_INSTRUCTION = str ''Chat.'' \<rparr>"

definition no_key_env :: environment where
  "no_key_env =
     \<lparr> API_KEY = None,
       SOLVER_SYSTEM_INSTRUCTION = str ''Solve.'',
       CHAT_SYSTEM_INSTRUCTION = str ''Chat.'' \<rparr>"

text \<open>
  A provider that answers the content requests with known texts and every chat
  message with the two deltas \<open>Hi\<close> and \<open>!\<close>; one whose answers are not JSON; one
  that answers with the empty object; and one that rejects every call.
\<close>

definition sample_provider :: "int provider" where
  "sample_provider =
     \<lparr> generateContent =
         (\<lambda>p. if responseSchema p = exampleProblemsSchema then Inr (Some (problems_text @ [10]))
              else if responseSchema p = mathFactSchema then Inr (Some fact_text)
              else Inr (Some (str '' 7 ''))),
       sendMessageStream = (\<lambda>p. Inr ([Some (str ''Hi''), Some (str ''!'')], None)),
       fact_rejects_first = False \<rparr>"

definition babbling_provider :: "int provider" where
  "babbling_provider =
     \<lparr> generateContent = (\<lambda>p. Inr (Some (str ''Sure! Here it is''))),
       sendMessageStream = (\<lambda>p. Inr ([], None)),
       fact_rejects_first = False \<rparr>"


definition rejecting_provider :: "int provider" where
  "rejecting_provider =
     \<lparr> generateContent = (\<lambda>p. Inl (Error (str ''quota exceeded''))),
       sendMessageStream = (\<lambda>p. Inl (Error (str ''quota exceeded''))),
       fact_rejects_first = False \<rparr>"

definition post :: "int json \<Rightarrow> int request" where
  "post b = \<lparr> req_method = str ''POST'', req_body = Some b \<rparr>"

definition action_body :: "jstring \<Rightarrow> int json \<Rightarrow> int json" where
  "action_body action payload = JObj [(str ''action'', JStr action), (str ''payload'', payload)]"

text \<open>A decoder for a stream of ASCII bytes: each byte is the code unit it encodes.\<close>

definition ascii_decoder :: "unit decoder" where
  "ascii_decoder d v = (v, d)"

section \<open>String literals\<close>

lemma str_eq_iff [simp]: "str a = str b \<longleftrightarrow> a = b"
  by (simp add: str_def inj_of_char)

lemma str_Nil_iff [simp]: "str a = [] \<longleftrightarrow> a = []"
  by (simp add: str_def)

section \<open>The frontend service client\<close>

lemma str_ar_neq_en: "str ''en'' \<noteq> str ''ar''"
  by (simp add: str_def)

lemma postToAction_fails_iff:
  assumes "action \<noteq> str ''chat''"
  shows "(\<exists>e. postToAction eng fetch action payload = Inl e) \<longleftrightarrow>
         (case fetch (action_request action payload) of
            Inl e \<Rightarrow> True
          | Inr r \<Rightarrow> \<not> ok r \<or> (\<exists>e. json_result r = Inl e))"
  using assms by (auto simp: postToAction_def Let_def split: sum.splits)

lemma postToAction_value:
  assumes "postToAction eng fetch action payload = Inr v" and "action \<noteq> str ''chat''"
  shows "\<exists>r j. fetch (action_request action payload) = Inr r \<and> ok r
               \<and> json_result r = Inr j \<and> v = JsonValue j"
  using assms by (auto simp: postToAction_def Let_def split: sum.splits if_splits)

lemma fallback_ar_texts:
  "list_all (\<lambda>t. \<exists>c \<in> set t. 0x600 \<le> c \<and> c \<le> 0x6FF)
     [fallback_problem_1 (str ''ar''), fallback_problem_2 (str ''ar''),
      fallback_fact (str ''ar'')]"
  by (simp add: fallback_problem_1_def fallback_problem_2_def fallback_fact_def)

lemma fallback_en_texts:
  "list_all (\<lambda>t. \<forall>c \<in> set t. c < 128)
     [fallback_problem_1 (str ''en''), fallback_problem_2 (str ''en''),
      fallback_fact (str ''en'')]"
  by (simp add: fallback_problem_1_def fallback_problem_2_def fallback_fact_def
      str_ar_neq_en) (simp add: str_def)

text \<open>
  C4. When \<open>postToAction\<close> throws, whatever it throws, \<open>generateInitialData\<close> returns
  the fallback, a value that depends on the language alone: two example problems with the
  ids fallback-1 and fallback-2 and a fact, with the Arabic texts for \<open>ar\<close> and the
  English texts for \<open>en\<close> (and for any other language).
\<close>

theorem generateInitialData_fallback:
  assumes "postToAction eng fetch (str ''generateInitialData'')
             (JObj [(str ''language'', JStr language)]) = Inl e"
  shows "generateInitialData eng fetch language =
           JsonValue
           (JObj [(str ''examples'',
                   JArr [JObj [(str ''id'', JStr (str ''fallback-1'')),
                               (str ''problem'',
                                JStr (if language = str ''ar''
                                      then [0x62D, 0x644, 0x20, 0x644, 0x640, 0x20, 0x633, 0x3A, 0x20, 0x33, 0x633,
                                            0x20, 0x2D, 0x20, 0x37, 0x20, 0x3D, 0x20, 0x35]
                                      else str ''Solve for x: 3x - 7 = 5''))],
                         JObj [(str ''id'', JStr (str ''fallback-2'')),
                               (str ''problem'',
                                JStr (if language = str ''ar''
                                      then [0x645, 0x627, 0x20, 0x647, 0x64A, 0x20, 0x645, 0x633, 0x627, 0x62D,
                                            0x629, 0x20, 0x62F, 0x627, 0x626, 0x631, 0x629, 0x20, 0x646, 0x635,
                                            0x641, 0x20, 0x642, 0x637, 0x631, 0x647, 0x627, 0x20, 0x35, 0x61F]
                                      else str ''What is the area of a circle with a radius of 5?''))] ]),
                  (str ''fact'',
                   JStr (if language = str ''ar''
                         then [0x627, 0x644, 0x635, 0x641, 0x631, 0x20, 0x647, 0x648, 0x20, 0x627,
                               0x644, 0x639, 0x62F, 0x62F, 0x20, 0x627, 0x644, 0x635, 0x62D, 0x64A,
                               0x62D, 0x20, 0x627, 0x644, 0x648, 0x62D, 0x64A, 0x62F, 0x20, 0x627,
                               0x644, 0x630, 0x64A, 0x20, 0x644, 0x64A, 0x633, 0x20, 0x645, 0x648,
                               0x62C, 0x628, 0x64B, 0x627, 0x20, 0x648, 0x644, 0x627, 0x20, 0x633,
                               0x627, 0x644, 0x628, 0x64B, 0x627, 0x2E]
                         else str ''Zero is the only integer that is neither positive nor negative.''))])"
  using assms
  by (simp add: generateInitialData_def fallback_def fallback_problem_1_def
        fallback_problem_2_def fallback_fact_def)

theorem generateInitialData_fallback_witness:
  "generateInitialData sample_engine offline (str ''ar'') =
       JsonValue
       (JObj [(str ''examples'',
               JArr [JObj [(str ''id'', JStr (str ''fallback-1'')),
                           (str ''problem'',
                            JStr [0x62D, 0x644, 0x20, 0x644, 0x640, 0x20, 0x633, 0x3A, 0x20, 0x33, 0x633,
                                 0x20, 0x2D, 0x20, 0x37, 0x20, 0x3D, 0x20, 0x35])],
                     JObj [(str ''id'', JStr (str ''fallback-2'')),
                           (str ''problem'',
                            JStr [0x645, 0x627, 0x20, 0x647, 0x64A, 0x20, 0x645, 0x633, 0x627, 0x62D,
                                 0x629, 0x20, 0x62F, 0x627, 0x626, 0x631, 0x629, 0x20, 0x646, 0x635,
                                 0x641, 0x20, 0x642, 0x637, 0x631, 0x647, 0x627, 0x20, 0x35, 0x61F])] ]),
              (str ''fact'',
               JStr [0x627, 0x644, 0x635, 0x641, 0x631, 0x20, 0x647, 0x648, 0x20, 0x627,
                    0x644, 0x639, 0x62F, 0x62F, 0x20, 0x627, 0x644, 0x635, 0x62D, 0x64A,
                    0x62D, 0x20, 0x627, 0x644, 0x648, 0x62D, 0x64A, 0x62F, 0x20, 0x627,
                    0x644, 0x630, 0x64A, 0x20, 0x644, 0x64A, 0x633, 0x20, 0x645, 0x648,
                    0x62C, 0x628, 0x64B, 0x627, 0x20, 0x648, 0x644, 0x627, 0x20, 0x633,
                    0x627, 0x644, 0x628, 0x64B, 0x627, 0x2E])])
   \<and> generateInitialData sample_engine offline (str ''en'') =
       JsonValue
       (JObj [(str ''examples'',
               JArr [JObj [(str ''id'', JStr (str ''fallback-1'')),
                           (str ''problem'',
                            JStr (str ''Solve for x: 3x - 7 = 5''))],
                     JObj [(str ''id'', JStr (str ''fallback-2'')),
                           (str ''problem'',
                            JStr (str ''What is the area of a circle with a radius of 5?''))] ]),
              (str ''fact'',
               JStr (str ''Zero is the only integer that is neither positive nor negative.''))])"
proof -
  have f: "\<And>l. postToAction sample_engine offline (str ''generateInitialData'')
             (JObj [(str ''language'', JStr l)]) = Inl (TypeError (str ''Failed to fetch''))"
    by (simp add: postToAction_def offline_def)
  show ?thesis
    using generateInitialData_fallback [OF f, of "str ''ar''"]
          generateInitialData_fallback [OF f, of "str ''en''"]
    by simp
qed

text \<open>
  C9. \<open>solveProblem\<close> has no fallback: when \<open>postToAction\<close> throws, the error is replaced
  by an Error with the fixed message, and a value is returned only when the backend's
  response has a status from 200 to 299 and a body that parses as JSON, and then it is
  that body.
\<close>

theorem solveProblem_no_fallback:
  "(\<forall>e. postToAction eng fetch (str ''solveProblem'')
           (JObj [(str ''problem'', problem), (str ''language'', JStr language)]) = Inl e \<longrightarrow>
        solveProblem eng fetch problem language =
          Inl (Error (str ''Failed to get a valid response from the AI. Please try again.'')))
   \<and> (\<forall>v. solveProblem eng fetch problem language = Inr v \<longrightarrow>
        (\<exists>r j. fetch (action_request (str ''solveProblem'')
                        (JObj [(str ''problem'', problem), (str ''language'', JStr language)]))
                 = Inr r
               \<and> 200 \<le> status r \<and> status r \<le> 299
               \<and> json_result r = Inr j \<and> v = JsonValue j))"
proof -
  have ne: "str ''solveProblem'' \<noteq> str ''chat''" by (simp add: str_def)
  show ?thesis
    by (auto simp: solveProblem_def ok_def split: sum.splits
             dest!: postToAction_value [OF _ ne])
qed

theorem solveProblem_no_fallback_witness:
  "solveProblem sample_engine offline (JStr (str ''2+2'')) (str ''en'')
     = Inl (Error (str ''Failed to get a valid response from the AI. Please try again.''))
   \<and> solveProblem sample_engine (answering (JNum 4)) (JStr (str ''2+2'')) (str ''en'')
       = Inr (JsonValue (JNum 4))"
proof -
  have f: "postToAction sample_engine offline (str ''solveProblem'')
             (JObj [(str ''problem'', JStr (str ''2+2'')), (str ''language'', JStr (str ''en''))])
           = Inl (TypeError (str ''Failed to fetch''))"
    by (simp add: postToAction_def offline_def)
  have g: "solveProblem sample_engine (answering (JNum 4)) (JStr (str ''2+2'')) (str ''en'')
             = Inr (JsonValue (JNum 4))"
    by (simp add: solveProblem_def postToAction_def answering_def ok_def str_def)
  from solveProblem_no_fallback [of sample_engine offline "JStr (str ''2+2'')" "str ''en''"] f
  have 1: "solveProblem sample_engine offline (JStr (str ''2+2'')) (str ''en'')
     = Inl (Error (str ''Failed to get a valid response from the AI. Please try again.''))"
    by blast
  from solveProblem_no_fallback [of sample_engine "answering (JNum 4)" "JStr (str ''2+2'')" "str ''en''"] g
  have "\<exists>r j. answering (JNum 4) (action_request (str ''solveProblem'')
                        (JObj [(str ''problem'', JStr (str ''2+2'')), (str ''language'', JStr (str ''en''))]))
                 = Inr r \<and> 200 \<le> status r \<and> status r \<le> 299
               \<and> json_result r = Inr j \<and> JsonValue (JNum 4) = JsonValue j"
    by blast
  with 1 g show ?thesis by simp
qed

section \<open>The backend dispatcher: validation and dispatch\<close>

text \<open>
  C2. Any method but POST is answered 405, and a POST while the API key is unset is
  answered 500, each with its fixed error body and with no provider call.
\<close>

theorem handler_validates_first:
  "(req_method req \<noteq> str ''POST'' \<longrightarrow>
      handler eng env ai req =
        \<lparr> res_ops = [Status 405, Json (JObj [(str ''error'', JStr (str ''Method Not Allowed''))])],
          calls = [], uncaught = None \<rparr>)
   \<and> (req_method req = str ''POST'' \<and> API_KEY env = None \<longrightarrow>
      handler eng env ai req =
        \<lparr> res_ops = [Status 500,
                     Json (JObj [(str ''error'',
                                  JStr (str ''API_KEY is not configured on the server.''))])],
          calls = [], uncaught = None \<rparr>)"
  by (simp add: handler_def error_body_def)

theorem handler_validates_first_witness:
  "handler sample_engine sample_env sample_provider
     \<lparr> req_method = str ''GET'', req_body = None \<rparr>
     = \<lparr> res_ops = [Status 405, Json (JObj [(str ''error'', JStr (str ''Method Not Allowed''))])],
         calls = [], uncaught = None \<rparr>
   \<and> handler sample_engine no_key_env sample_provider
       (post (action_body (str ''solveProblem'') (JObj [(str ''problem'', JStr (str ''2+2''))])))
     = \<lparr> res_ops = [Status 500,
                     Json (JObj [(str ''error'',
                                  JStr (str ''API_KEY is not configured on the server.''))])],
         calls = [], uncaught = None \<rparr>"
  using handler_validates_first [of "\<lparr> req_method = str ''GET'', req_body = None \<rparr>"
          sample_engine sample_env sample_provider]
        handler_validates_first [of "post (action_body (str ''solveProblem'')
            (JObj [(str ''problem'', JStr (str ''2+2''))]))" sample_engine no_key_env sample_provider]
  by (simp add: post_def no_key_env_def)

text \<open>
  C8 as stated fails: a POST with an unknown action is answered 500, not 400, while the
  API key is unset.
\<close>

theorem invalid_action_counterexample:
  "res_ops (handler sample_engine no_key_env sample_provider
              (post (action_body (str ''translate'') (JObj []))))
     = [Status 500,
        Json (JObj [(str ''error'', JStr (str ''API_KEY is not configured on the server.''))])]
   \<and> Status 400 \<notin> set (res_ops (handler sample_engine no_key_env sample_provider
                                   (post (action_body (str ''translate'') (JObj [])))))"
  by (simp add: handler_def post_def no_key_env_def error_body_def)

text \<open>
  C8, amended. For a POST made while the API key is set, with a body that is neither
  \<open>null\<close> nor \<open>undefined\<close>, whose action is none of the three (or is missing), the
  handler answers 400 with \<open>{ error: 'Invalid action' }\<close> and calls no provider.
\<close>

theorem invalid_action_400:
  assumes "req_method req = str ''POST''"
    and "API_KEY env = Some k" and "k \<noteq> []"
    and "get_prop eng (req_body req) (str ''action'') = Inr action"
    and "action \<noteq> Some (JStr (str ''generateInitialData''))"
    and "action \<noteq> Some (JStr (str ''solveProblem''))"
    and "action \<noteq> Some (JStr (str ''chat''))"
  shows "handler eng env ai req =
           \<lparr> res_ops = [Status 400, Json (JObj [(str ''error'', JStr (str ''Invalid action''))])],
             calls = [], uncaught = None \<rparr>"
proof -
  from assms(4) obtain payload where
    "get_prop eng (req_body req) (str ''payload'') = Inr payload"
    by (cases "(eng, req_body req, str ''action'')" rule: get_prop.cases) auto
  with assms show ?thesis
    by (simp add: handler_def dispatch_def error_body_def)
qed

theorem invalid_action_400_witness:
  "handler sample_engine sample_env sample_provider
     (post (action_body (str ''translate'') (JObj [])))
     = \<lparr> res_ops = [Status 400, Json (JObj [(str ''error'', JStr (str ''Invalid action''))])],
         calls = [], uncaught = None \<rparr>
   \<and> handler sample_engine sample_env sample_provider (post (JObj []))
     = \<lparr> res_ops = [Status 400, Json (JObj [(str ''error'', JStr (str ''Invalid action''))])],
         calls = [], uncaught = None \<rparr>"
proof -
  have 1: "req_method (post b) = str ''POST''" for b by (simp add: post_def)
  have 2: "API_KEY sample_env = Some (str ''key'')" by (simp add: sample_env_def)
  have 3: "str ''key'' \<noteq> []" by simp
  have 4: "get_prop sample_engine (req_body (post (action_body (str ''translate'') (JObj []))))
             (str ''action'') = Inr (Some (JStr (str ''translate'')))"
    by (simp add: post_def action_body_def)
  have 5: "get_prop sample_engine (req_body (post (JObj []))) (str ''action'') = Inr None"
    by (simp add: post_def)
  show ?thesis
    using invalid_action_400 [OF 1 2 3 4, of sample_provider]
          invalid_action_400 [OF 1 2 3 5, of sample_provider]
    by simp
qed

section \<open>The backend dispatcher: initial data and solving\<close>

lemma trim_sample [simp]:
  "trim (problems_text @ [10]) = problems_text" "trim fact_text = fact_text"
  "trim (str '' 7 '') = str ''7''" "trim (str ''Sure! Here it is'') = str ''Sure! Here it is''"
  "trim (str ''{}'') = str ''{}''"
  by (simp_all add: trim_def is_space_def problems_text_def fact_text_def quoted_def str_def)

lemma sample_parse_values [simp]:
  "sample_parse problems_text =
     Inr (JObj [(str ''problems'',
              JArr [JObj [(str ''id'', JStr (str ''p1'')),
                          (str ''problem'', JStr (str ''1+1''))] ])])"
  "sample_parse fact_text = Inr (JObj [(str ''fact'', JStr (str ''Zero is even.''))])"
  "sample_parse (str ''7'') = Inr (JNum 7)"
  "sample_parse (str ''Sure! Here it is'') = Inl (str ''Unexpected token'')"
  "sample_parse (str ''{}'') = Inr (JObj [])"
  by (simp_all add: sample_parse_def known_texts_def problems_text_def fact_text_def
        shadowed_text_def quoted_def str_def)

text \<open>What the handler does once the method, the key and the body have passed.\<close>

lemma handler_dispatch:
  assumes "req_method req = str ''POST''" and "API_KEY env = Some k" and "k \<noteq> []"
    and "get_prop eng (req_body req) (str ''action'') = Inr action"
    and "get_prop eng (req_body req) (str ''payload'') = Inr payload"
  shows "handler eng env ai req =
           (case dispatch eng env ai action payload of
              (ops, issued, None) \<Rightarrow> \<lparr> res_ops = ops, calls = issued, uncaught = None \<rparr>
            | (ops, issued, Some error) \<Rightarrow>
                \<lparr> res_ops = ops @
                    [Status 500,
                     Json (error_body (str ''An internal server error occurred: ''
                                       @ message error))],
                  calls = issued, uncaught = None \<rparr>)"
  using assms by (simp add: handler_def)

lemma generateInitialData_case_parse_error:
  assumes "get_prop eng payload (str ''language'') = Inr language"
    and "generateContent ai (examples_call language) = Inr (Some t1)"
    and "generateContent ai (fact_call language) = Inr (Some t2)"
    and "JSON_parse eng (trim t1) = Inl m
         \<or> (\<exists>v. JSON_parse eng (trim t1) = Inr v) \<and> JSON_parse eng (trim t2) = Inl m"
  shows "generateInitialData_case eng ai payload =
           ([], [GenerateContent (examples_call language), GenerateContent (fact_call language)],
            Some (SyntaxError m))"
  using assms
  by (auto simp: generateInitialData_case_def promise_all_def parse_response_text_def)

lemma solveProblem_case_parse_error:
  assumes "get_prop eng payload (str ''problem'') = Inr problem"
    and "get_prop eng payload (str ''language'') = Inr language"
    and "solve_contents eng problem = Inr cs"
    and "generateContent ai (solve_call env cs language) = Inr (Some t)"
    and "JSON_parse eng (trim t) = Inl m"
  shows "solveProblem_case eng env ai payload =
           ([Status 200], [GenerateContent (solve_call env cs language)],
            Some (SyntaxError m))"
  using assms by (simp add: solveProblem_case_def parse_response_text_def)

text \<open>
  C3. A \<open>generateInitialData\<close> request where one of the two texts the provider returned
  does not parse, and a \<open>solveProblem\<close> request where the text returned does not parse,
  are answered with one JSON response, sent with status 500:
  \<open>{ error: 'An internal server error occurred: ' + message }\<close>, the message being the
  one \<open>JSON.parse\<close> threw with. For \<open>solveProblem\<close> the status had been set to 200
  before the text was parsed; the \<open>catch\<close> sets it to 500 before anything is sent.
\<close>

theorem unparseable_text_500:
  assumes "req_method req = str ''POST''" and "API_KEY env = Some k" and "k \<noteq> []"
    and "get_prop eng (req_body req) (str ''action'') = Inr action"
    and "get_prop eng (req_body req) (str ''payload'') = Inr payload"
    and "get_prop eng payload (str ''language'') = Inr language"
    and "action = Some (JStr (str ''generateInitialData''))
           \<and> generateContent ai (examples_call language) = Inr (Some t1)
           \<and> generateContent ai (fact_call language) = Inr (Some t2)
           \<and> (JSON_parse eng (trim t1) = Inl m
                \<or> (\<exists>v. JSON_parse eng (trim t1) = Inr v) \<and> JSON_parse eng (trim t2) = Inl m)
         \<or> action = Some (JStr (str ''solveProblem''))
           \<and> get_prop eng payload (str ''problem'') = Inr problem
           \<and> solve_contents eng problem = Inr cs
           \<and> generateContent ai (solve_call env cs language) = Inr (Some t1)
           \<and> JSON_parse eng (trim t1) = Inl m"
  shows "json_responses 200 (res_ops (handler eng env ai req)) =
           [(500, JObj [(str ''error'',
                         JStr (str ''An internal server error occurred: '' @ m))])]
         \<and> res_ops (handler eng env ai req) =
             (if action = Some (JStr (str ''solveProblem'')) then [Status 200] else [])
             @ [Status 500,
                Json (JObj [(str ''error'',
                             JStr (str ''An internal server error occurred: '' @ m))])]
         \<and> uncaught (handler eng env ai req) = None"
proof -
  note h = handler_dispatch [OF assms(1-5), of ai]
  from assms(7) consider
    (initial) "action = Some (JStr (str ''generateInitialData''))"
      "generateContent ai (examples_call language) = Inr (Some t1)"
      "generateContent ai (fact_call language) = Inr (Some t2)"
      "JSON_parse eng (trim t1) = Inl m
       \<or> (\<exists>v. JSON_parse eng (trim t1) = Inr v) \<and> JSON_parse eng (trim t2) = Inl m"
  | (solve) "action = Some (JStr (str ''solveProblem''))"
      "get_prop eng payload (str ''problem'') = Inr problem"
      "solve_contents eng problem = Inr cs"
      "generateContent ai (solve_call env cs language) = Inr (Some t1)"
      "JSON_parse eng (trim t1) = Inl m"
    by blast
  then show ?thesis
  proof cases
    case initial
    then have "dispatch eng env ai action payload =
                 ([], [GenerateContent (examples_call language),
                       GenerateContent (fact_call language)], Some (SyntaxError m))"
      using generateInitialData_case_parse_error [OF assms(6)]
      by (simp add: dispatch_def)
    then show ?thesis using initial(1) by (simp add: h error_body_def)
  next
    case solve
    then have "dispatch eng env ai action payload =
                 ([Status 200], [GenerateContent (solve_call env cs language)],
                  Some (SyntaxError m))"
      using solveProblem_case_parse_error [OF _ assms(6)]
      by (simp add: dispatch_def)
    then show ?thesis using solve(1) by (simp add: h error_body_def)
  qed
qed

theorem unparseable_text_500_witness:
  "res_ops (handler sample_engine sample_env babbling_provider
              (post (action_body (str ''generateInitialData'')
                       (JObj [(str ''language'', JStr (str ''en''))]))))
     = [Status 500,
        Json (JObj [(str ''error'',
                     JStr (str ''An internal server error occurred: Unexpected token''))])]
   \<and> res_ops (handler sample_engine sample_env babbling_provider
              (post (action_body (str ''solveProblem'')
                       (JObj [(str ''problem'', JStr (str ''2+2'')),
                              (str ''language'', JStr (str ''en''))]))))
     = [Status 200, Status 500,
        Json (JObj [(str ''error'',
                     JStr (str ''An internal server error occurred: Unexpected token''))])]
   \<and> json_responses 200
        (res_ops (handler sample_engine sample_env babbling_provider
              (post (action_body (str ''solveProblem'')
                       (JObj [(str ''problem'', JStr (str ''2+2'')),
                              (str ''language'', JStr (str ''en''))])))))
     = [(500, JObj [(str ''error'',
                     JStr (str ''An internal server error occurred: Unexpected token''))])]"
proof -
  let ?p1 = "JObj [(str ''language'', JStr (str ''en''))] :: int json"
  let ?p2 = "JObj [(str ''problem'', JStr (str ''2+2'')),
                   (str ''language'', JStr (str ''en''))] :: int json"
  let ?text = "str ''Sure! Here it is''"
  have m: "req_method (post b) = str ''POST''" for b by (simp add: post_def)
  have k: "API_KEY sample_env = Some (str ''key'')" "str ''key'' \<noteq> []"
    by (simp_all add: sample_env_def)
  have a1: "get_prop sample_engine (req_body (post (action_body (str ''generateInitialData'') ?p1)))
              (str ''action'') = Inr (Some (JStr (str ''generateInitialData'')))"
          "get_prop sample_engine (req_body (post (action_body (str ''generateInitialData'') ?p1)))
              (str ''payload'') = Inr (Some ?p1)"
    by (simp_all add: post_def action_body_def)
  have a2: "get_prop sample_engine (req_body (post (action_body (str ''solveProblem'') ?p2)))
              (str ''action'') = Inr (Some (JStr (str ''solveProblem'')))"
          "get_prop sample_engine (req_body (post (action_body (str ''solveProblem'') ?p2)))
              (str ''payload'') = Inr (Some ?p2)"
    by (simp_all add: post_def action_body_def)
  have l: "get_prop sample_engine (Some ?p1) (str ''language'') = Inr (Some (JStr (str ''en'')))"
          "get_prop sample_engine (Some ?p2) (str ''language'') = Inr (Some (JStr (str ''en'')))"
    by simp_all
  have g: "Some (JStr (str ''generateInitialData'')) = Some (JStr (str ''generateInitialData''))
           \<and> generateContent babbling_provider (examples_call (Some (JStr (str ''en''))))
               = Inr (Some ?text)
           \<and> generateContent babbling_provider (fact_call (Some (JStr (str ''en''))))
               = Inr (Some ?text)
           \<and> (JSON_parse sample_engine (trim ?text) = Inl (str ''Unexpected token'')
                \<or> (\<exists>v. JSON_parse sample_engine (trim ?text) = Inr v)
                  \<and> JSON_parse sample_engine (trim ?text) = Inl (str ''Unexpected token''))
         \<or> Some (JStr (str ''generateInitialData'')) = Some (JStr (str ''solveProblem''))
           \<and> get_prop sample_engine (Some ?p1) (str ''problem'') = Inr (Some (JStr (str ''2+2'')))
           \<and> solve_contents sample_engine (Some (JStr (str ''2+2''))) = Inr (Prompt (str ''2+2''))
           \<and> generateContent babbling_provider
                (solve_call sample_env (Prompt (str ''2+2'')) (Some (JStr (str ''en''))))
               = Inr (Some ?text)
           \<and> JSON_parse sample_engine (trim ?text) = Inl (str ''Unexpected token'')"
    by (simp add: babbling_provider_def sample_engine_def)
  have s: "Some (JStr (str ''solveProblem'')) = Some (JStr (str ''generateInitialData''))
           \<and> generateContent babbling_provider (examples_call (Some (JStr (str ''en''))))
               = Inr (Some ?text)
           \<and> generateContent babbling_provider (fact_call (Some (JStr (str ''en''))))
               = Inr (Some ?text)
           \<and> (JSON_parse sample_engine (trim ?text) = Inl (str ''Unexpected token'')
                \<or> (\<exists>v. JSON_parse sample_engine (trim ?text) = Inr v)
                  \<and> JSON_parse sample_engine (trim ?text) = Inl (str ''Unexpected token''))
         \<or> Some (JStr (str ''solveProblem'')) = Some (JStr (str ''solveProblem''))
           \<and> get_prop sample_engine (Some ?p2) (str ''problem'') = Inr (Some (JStr (str ''2+2'')))
           \<and> solve_contents sample_engine (Some (JStr (str ''2+2''))) = Inr (Prompt (str ''2+2''))
           \<and> generateContent babbling_provider
                (solve_call sample_env (Prompt (str ''2+2'')) (Some (JStr (str ''en''))))
               = Inr (Some ?text)
           \<and> JSON_parse sample_engine (trim ?text) = Inl (str ''Unexpected token'')"
    by (simp add: babbling_provider_def sample_engine_def solve_contents_def)
  show ?thesis
    using unparseable_text_500 [OF m k a1 l(1) g] unparseable_text_500 [OF m k a2 l(2) s]
    by (auto simp: str_def)
qed

text \<open>
  Both calls are issued whatever either of them answers: the attempt records the two
  calls as soon as the language could be read.
\<close>

lemma generateInitialData_case_calls:
  assumes "get_prop eng payload (str ''language'') = Inr language"
  shows "fst (snd (generateInitialData_case eng ai payload)) =
           [GenerateContent (examples_call language), GenerateContent (fact_call language)]"
  using assms
  by (simp add: generateInitialData_case_def Let_def split: sum.splits prod.splits)







section \<open>The backend dispatcher: chat\<close>

lemma toGeminiHistory_length:
  "toGeminiHistory eng msgs = Inr turns \<Longrightarrow> length turns = length msgs"
  by (induction msgs arbitrary: turns) (auto split: sum.splits)

lemma toGeminiHistory_messages:
  "toGeminiHistory eng (map message_json hist) =
     Inr (map (\<lambda>m. Content (Some (JStr (role_value (msg_role m))))
                      [TextPart (Some (JStr (msg_text m)))]) hist)"
  by (induction hist) (simp_all add: message_json_def)

lemma chat_case_typed:
  "chat_case eng env ai (Some (chat_payload hist msg language)) =
     (let p = chat_call env
                (map (\<lambda>m. Content (Some (JStr (role_value (msg_role m))))
                              [TextPart (Some (JStr (msg_text m)))]) hist)
                (Some (JStr msg)) (Some (JStr language))
      in case sendMessageStream ai p of
           Inl e \<Rightarrow> ([], [SendMessageStream p], Some e)
         | Inr (chunks, failure) \<Rightarrow>
             (case failure of
                Some e \<Rightarrow> (stream_headers @ map write_chunk chunks, [SendMessageStream p], Some e)
              | None \<Rightarrow>
                  (stream_headers @ map write_chunk chunks @ [End], [SendMessageStream p],
                   None)))"
  by (simp add: chat_case_def chat_payload_def history_map_def toGeminiHistory_messages Let_def)

lemma chat_case_calls:
  "fst (snd (chat_case eng env ai (Some (chat_payload hist msg language)))) =
     [SendMessageStream
        (chat_call env
           (map (\<lambda>m. Content (Some (JStr (role_value (msg_role m))))
                         [TextPart (Some (JStr (msg_text m)))]) hist)
           (Some (JStr msg)) (Some (JStr language)))]"
  by (simp add: chat_case_typed Let_def split: sum.splits prod.splits option.splits)

text \<open>
  C5. For a chat request whose history is a list of \<open>{role, text}\<close> messages with role
  user or model, the history handed to the provider has one turn for each message, in
  the same order: the i-th turn has the role of the i-th message and the single part
  \<open>{ text }\<close> with its text.
\<close>

theorem chat_history_conversion:
  assumes "req_method req = str ''POST''" and "API_KEY env = Some k" and "k \<noteq> []"
    and "req_body req =
           Some (JObj [(str ''action'', JStr (str ''chat'')),
                       (str ''payload'', chat_payload hist msg language)])"
  shows "\<exists>p. calls (handler eng env ai req) = [SendMessageStream p]
           \<and> history p =
               map (\<lambda>m. Content (Some (JStr (role_value (msg_role m))))
                             [TextPart (Some (JStr (msg_text m)))]) hist
           \<and> length (history p) = length hist
           \<and> (\<forall>i < length hist.
                 role (history p ! i) = Some (JStr (role_value (msg_role (hist ! i))))
               \<and> parts (history p ! i) = [TextPart (Some (JStr (msg_text (hist ! i))))])"
proof -
  let ?turns = "map (\<lambda>m. Content (Some (JStr (role_value (msg_role m))))
                             [TextPart (Some (JStr (msg_text m)))]) hist :: 'a content list"
  let ?p = "chat_call env ?turns (Some (JStr msg)) (Some (JStr language))"
  let ?a = "chat_case eng env ai (Some (chat_payload hist msg language))"
  have a: "get_prop eng (req_body req) (str ''action'') = Inr (Some (JStr (str ''chat'')))"
    "get_prop eng (req_body req) (str ''payload'') = Inr (Some (chat_payload hist msg language))"
    using assms(4) by simp_all
  have "calls (handler eng env ai req) = fst (snd ?a)"
    unfolding handler_dispatch [OF assms(1-3) a]
    by (simp add: dispatch_def split: prod.splits option.splits)
  then have "calls (handler eng env ai req) = [SendMessageStream ?p]"
    by (simp add: chat_case_calls)
  moreover have "history ?p = ?turns" by (simp add: chat_call_def)
  ultimately show ?thesis by (intro exI [of _ ?p]) simp
qed

theorem chat_history_conversion_witness:
  "\<exists>p. calls (handler sample_engine sample_env sample_provider
             (post (action_body (str ''chat'')
                (chat_payload [\<lparr> msg_role = USER, msg_text = str ''What is 2+2?'' \<rparr>,
                               \<lparr> msg_role = MODEL, msg_text = str ''4'' \<rparr>,
                               \<lparr> msg_role = USER, msg_text = str ''Why?'' \<rparr>]
                   (str ''Why?'') (str ''en''))))) = [SendMessageStream p]
     \<and> history p =
         [Content (Some (JStr (str ''user''))) [TextPart (Some (JStr (str ''What is 2+2?'')))],
          Content (Some (JStr (str ''model''))) [TextPart (Some (JStr (str ''4'')))],
          Content (Some (JStr (str ''user''))) [TextPart (Some (JStr (str ''Why?'')))] ]"
proof -
  let ?hist = "[\<lparr> msg_role = USER, msg_text = str ''What is 2+2?'' \<rparr>,
                \<lparr> msg_role = MODEL, msg_text = str ''4'' \<rparr>,
                \<lparr> msg_role = USER, msg_text = str ''Why?'' \<rparr>]"
  let ?req = "post (action_body (str ''chat'') (chat_payload ?hist (str ''Why?'') (str ''en'')))"
  have m: "req_method ?req = str ''POST''" by (simp add: post_def)
  have k: "API_KEY sample_env = Some (str ''key'')" "str ''key'' \<noteq> []"
    by (simp_all add: sample_env_def)
  have b: "req_body ?req =
           Some (JObj [(str ''action'', JStr (str ''chat'')),
                       (str ''payload'', chat_payload ?hist (str ''Why?'') (str ''en''))])"
    by (simp add: post_def action_body_def)
  from chat_history_conversion [OF m k b, of sample_engine sample_provider]
  obtain p where
    "calls (handler sample_engine sample_env sample_provider ?req) = [SendMessageStream p]"
    "history p = map (\<lambda>m. Content (Some (JStr (role_value (msg_role m))))
                             [TextPart (Some (JStr (msg_text m)))]) ?hist"
    by blast
  then show ?thesis by (intro exI [of _ p]) simp
qed

subsection \<open>The records of the stream\<close>

lemma hex_digit_not_newline: "hex_digit n \<noteq> 10"
  by (simp add: hex_digit_def)

lemma quote_unit_no_newline: "10 \<notin> set (quote_unit c)"
  by (simp add: quote_unit_def unicode_escape_def hex_digit_not_newline)

lemma quote_units_no_newline: "10 \<notin> set (quote_units s)"
proof (induction s rule: quote_units.induct)
  case 1
  show ?case by simp
next
  case (2 c)
  show ?case by (simp add: quote_unit_no_newline)
next
  case (3 c d cs)
  then show ?case
    by (auto simp: quote_unit_no_newline is_leading_surrogate_def is_trailing_surrogate_def)
qed

lemma stringify_text_record_no_newline: "10 \<notin> set (stringify_text_record t)"
  by (cases t)
     (auto simp: stringify_text_record_def QuoteJSONString_def quote_units_no_newline str_def)

text \<open>
  The only request \<open>postToAction\<close> makes is the one with the action and the payload:
  its outcome depends on \<open>fetch\<close> through the answer to that request alone.
\<close>

lemma postToAction_request:
  "fetch (action_request a p) = fetch' (action_request a p) \<Longrightarrow>
   postToAction eng fetch a p = postToAction eng fetch' a p"
  by (simp add: postToAction_def)

lemma postToAction_rejected:
  "fetch (action_request a p) = Inl e \<Longrightarrow> postToAction eng fetch a p = Inl e"
  by (simp add: postToAction_def)

text \<open>How the attempts of the two JSON actions can end.\<close>

lemma generateInitialData_case_shapes:
  "(\<exists>kvs issued. generateInitialData_case eng ai payload
                     = ([Status 200, Json (JObj kvs)], issued, None))
   \<or> (\<exists>e issued. generateInitialData_case eng ai payload = ([], issued, Some e))
   \<or> (\<exists>e issued. generateInitialData_case eng ai payload = ([Status 200], issued, Some e))"
  by (auto simp: generateInitialData_case_def Let_def split: sum.splits prod.splits)

lemma solveProblem_case_shapes:
  "(\<exists>v issued. solveProblem_case eng env ai payload = ([Status 200, Json v], issued, None))
   \<or> (\<exists>e issued. solveProblem_case eng env ai payload = ([], issued, Some e))
   \<or> (\<exists>e issued. solveProblem_case eng env ai payload = ([Status 200], issued, Some e))"
  by (auto simp: solveProblem_case_def Let_def split: sum.splits prod.splits)

text \<open>
  C1 as stated fails: a chat request whose provider call is rejected is answered with one
  JSON object, status 500; no header of a stream is set and nothing is written or ended.
\<close>

theorem chat_response_counterexample:
  "res_ops (handler sample_engine sample_env rejecting_provider
              (post (action_body (str ''chat'')
                 (chat_payload [\<lparr> msg_role = USER, msg_text = str ''Why?'' \<rparr>]
                    (str ''Why?'') (str ''en'')))))
     = [Status 500,
        Json (JObj [(str ''error'',
                     JStr (str ''An internal server error occurred: quota exceeded''))])]"
proof -
  let ?req = "post (action_body (str ''chat'')
                 (chat_payload [\<lparr> msg_role = USER, msg_text = str ''Why?'' \<rparr>]
                    (str ''Why?'') (str ''en'')))"
  have m: "req_method ?req = str ''POST''" by (simp add: post_def)
  have k: "API_KEY sample_env = Some (str ''key'')" "str ''key'' \<noteq> []"
    by (simp_all add: sample_env_def)
  have a: "get_prop sample_engine (req_body ?req) (str ''action'')
             = Inr (Some (JStr (str ''chat'')))"
          "get_prop sample_engine (req_body ?req) (str ''payload'')
             = Inr (Some (chat_payload [\<lparr> msg_role = USER, msg_text = str ''Why?'' \<rparr>]
                    (str ''Why?'') (str ''en'')))"
    by (simp_all add: post_def action_body_def)
  show ?thesis
    unfolding handler_dispatch [OF m k a]
    by (simp add: dispatch_def chat_case_typed rejecting_provider_def error_body_def str_def)
qed

text \<open>
  C1, amended. The client's request is a POST to \<open>/api/gemini\<close> with the body
  \<open>{ action, payload }\<close>: \<open>postToAction\<close> fails when that request fails and depends
  on \<open>fetch\<close> through the answer to that request alone. For a POST made while the API
  key is set, with a body that is neither \<open>null\<close> nor \<open>undefined\<close>: when the action is
  \<open>generateInitialData\<close> or \<open>solveProblem\<close>, exactly one JSON value is sent, with
  status 200 (for \<open>generateInitialData\<close> it is an object, for \<open>solveProblem\<close> whatever
  value the provider's text parsed to), or with status 500 and the shape \<open>{ error }\<close>;
  when it is \<open>chat\<close> with a history of messages and the provider's stream comes to its
  end, the response has the headers of a chunked plain text, then one write for each
  chunk of the stream, in order, the record \<open>JSON.stringify({ text: chunk.text })\<close> and
  a newline, no record holding a newline of its own, and then the end of the response;
  when the provider rejects the chat call, one JSON object is sent with status 500.
\<close>

theorem action_contract:
  assumes "req_method req = str ''POST''" and "API_KEY env = Some k" and "k \<noteq> []"
    and "get_prop eng (req_body req) (str ''action'') = Inr action"
    and "get_prop eng (req_body req) (str ''payload'') = Inr payload"
  shows "(fetch
            \<lparr> url = str ''/api/gemini'', http_method = str ''POST'',
               content_type = str ''application/json'',
               body = JObj [(str ''action'', JStr a), (str ''payload'', p)] \<rparr> = Inl e'
          \<longrightarrow> postToAction eng fetch a p = Inl e')
       \<and> (fetch
            \<lparr> url = str ''/api/gemini'', http_method = str ''POST'',
               content_type = str ''application/json'',
               body = JObj [(str ''action'', JStr a), (str ''payload'', p)] \<rparr>
          = fetch'
            \<lparr> url = str ''/api/gemini'', http_method = str ''POST'',
               content_type = str ''application/json'',
               body = JObj [(str ''action'', JStr a), (str ''payload'', p)] \<rparr>
          \<longrightarrow> postToAction eng fetch a p = postToAction eng fetch' a p)
       \<and> (action = Some (JStr (str ''generateInitialData''))
            \<or> action = Some (JStr (str ''solveProblem'')) \<longrightarrow>
          (\<exists>v. res_ops (handler eng env ai req) = [Status 200, Json v]
               \<and> json_responses 200 (res_ops (handler eng env ai req)) = [(200, v)]
               \<and> (action = Some (JStr (str ''generateInitialData'')) \<longrightarrow>
                    (\<exists>kvs. v = JObj kvs)))
          \<or> (\<exists>m. (res_ops (handler eng env ai req)
                      = [Status 500, Json (JObj [(str ''error'', JStr m)])]
                    \<or> res_ops (handler eng env ai req)
                      = [Status 200, Status 500, Json (JObj [(str ''error'', JStr m)])])
                  \<and> json_responses 200 (res_ops (handler eng env ai req))
                      = [(500, JObj [(str ''error'', JStr m)])]))
       \<and> (action = Some (JStr (str ''chat''))
            \<and> payload = Some (chat_payload hist msg language)
            \<and> sendMessageStream ai
                 (chat_call env
                    (map (\<lambda>m. Content (Some (JStr (role_value (msg_role m))))
                                  [TextPart (Some (JStr (msg_text m)))]) hist)
                    (Some (JStr msg)) (Some (JStr language))) = Inr (chunks, None) \<longrightarrow>
          res_ops (handler eng env ai req) =
            [SetHeader (str ''Content-Type'') (str ''text/plain; charset=utf-8''),
             SetHeader (str ''Transfer-Encoding'') (str ''chunked'')]
            @ map (\<lambda>text. Write (stringify_text_record text @ [10])) chunks
            @ [End]
          \<and> (\<forall>text \<in> set chunks. 10 \<notin> set (stringify_text_record text)))
       \<and> (action = Some (JStr (str ''chat''))
            \<and> payload = Some (chat_payload hist msg language)
            \<and> sendMessageStream ai
                 (chat_call env
                    (map (\<lambda>m. Content (Some (JStr (role_value (msg_role m))))
                                  [TextPart (Some (JStr (msg_text m)))]) hist)
                    (Some (JStr msg)) (Some (JStr language))) = Inl e \<longrightarrow>
          res_ops (handler eng env ai req) =
            [Status 500,
             Json (JObj [(str ''error'',
                          JStr (str ''An internal server error occurred: '' @ message e))])])"
proof (intro conjI impI)
  note h = handler_dispatch [OF assms, of ai]
  show "postToAction eng fetch a p = Inl e'"
    if "fetch
            \<lparr> url = str ''/api/gemini'', http_method = str ''POST'',
               content_type = str ''application/json'',
               body = JObj [(str ''action'', JStr a), (str ''payload'', p)] \<rparr> = Inl e'"
    using that postToAction_rejected [of fetch a p e' eng] by (simp add: action_request_def)
  show "postToAction eng fetch a p = postToAction eng fetch' a p"
    if "fetch
            \<lparr> url = str ''/api/gemini'', http_method = str ''POST'',
               content_type = str ''application/json'',
               body = JObj [(str ''action'', JStr a), (str ''payload'', p)] \<rparr>
          = fetch'
            \<lparr> url = str ''/api/gemini'', http_method = str ''POST'',
               content_type = str ''application/json'',
               body = JObj [(str ''action'', JStr a), (str ''payload'', p)] \<rparr>"
    using that postToAction_request [of fetch a p fetch' eng] by (simp add: action_request_def)
  {
    assume act: "action = Some (JStr (str ''generateInitialData''))
           \<or> action = Some (JStr (str ''solveProblem''))"
    show "(\<exists>v. res_ops (handler eng env ai req) = [Status 200, Json v]
               \<and> json_responses 200 (res_ops (handler eng env ai req)) = [(200, v)]
               \<and> (action = Some (JStr (str ''generateInitialData'')) \<longrightarrow>
                    (\<exists>kvs. v = JObj kvs)))
          \<or> (\<exists>m. (res_ops (handler eng env ai req)
                      = [Status 500, Json (JObj [(str ''error'', JStr m)])]
                    \<or> res_ops (handler eng env ai req)
                      = [Status 200, Status 500, Json (JObj [(str ''error'', JStr m)])])
                  \<and> json_responses 200 (res_ops (handler eng env ai req))
                      = [(500, JObj [(str ''error'', JStr m)])])"
    proof (cases "action = Some (JStr (str ''generateInitialData''))")
      case True
      then have d: "dispatch eng env ai action payload = generateInitialData_case eng ai payload"
        by (simp add: dispatch_def)
      from generateInitialData_case_shapes [of eng ai payload] show ?thesis
        unfolding h d using True by (elim disjE exE) (simp_all add: error_body_def)
    next
      case False
      with act have s: "action = Some (JStr (str ''solveProblem''))" by simp
      then have d: "dispatch eng env ai action payload = solveProblem_case eng env ai payload"
        by (simp add: dispatch_def)
      from solveProblem_case_shapes [of eng env ai payload] show ?thesis
        unfolding h d using s by (elim disjE exE) (simp_all add: error_body_def)
    qed
  }
  {
    assume c: "action = Some (JStr (str ''chat''))
            \<and> payload = Some (chat_payload hist msg language)
            \<and> sendMessageStream ai
                 (chat_call env
                    (map (\<lambda>m. Content (Some (JStr (role_value (msg_role m))))
                                  [TextPart (Some (JStr (msg_text m)))]) hist)
                    (Some (JStr msg)) (Some (JStr language))) = Inr (chunks, None)"
    then show "res_ops (handler eng env ai req) =
            [SetHeader (str ''Content-Type'') (str ''text/plain; charset=utf-8''),
             SetHeader (str ''Transfer-Encoding'') (str ''chunked'')]
            @ map (\<lambda>text. Write (stringify_text_record text @ [10])) chunks
            @ [End]"
      unfolding h
      by (simp add: dispatch_def chat_case_typed stream_headers_def write_chunk_def)
    show "\<forall>text \<in> set chunks. 10 \<notin> set (stringify_text_record text)"
      by (simp add: stringify_text_record_no_newline)
  }
  {
    assume "action = Some (JStr (str ''chat''))
            \<and> payload = Some (chat_payload hist msg language)
            \<and> sendMessageStream ai
                 (chat_call env
                    (map (\<lambda>m. Content (Some (JStr (role_value (msg_role m))))
                                  [TextPart (Some (JStr (msg_text m)))]) hist)
                    (Some (JStr msg)) (Some (JStr language))) = Inl e"
    then show "res_ops (handler eng env ai req) =
            [Status 500,
             Json (JObj [(str ''error'',
                          JStr (str ''An internal server error occurred: '' @ message e))])]"
      unfolding h by (simp add: dispatch_def chat_case_typed error_body_def)
  }
qed

theorem action_contract_witness:
  "res_ops (handler sample_engine sample_env sample_provider
              (post (action_body (str ''chat'')
                 (chat_payload [\<lparr> msg_role = USER, msg_text = str ''Why?'' \<rparr>]
                    (str ''Why?'') (str ''en'')))))
     = [SetHeader (str ''Content-Type'') (str ''text/plain; charset=utf-8''),
        SetHeader (str ''Transfer-Encoding'') (str ''chunked''),
        Write ([123] @ quoted ''text'' @ [58] @ quoted ''Hi'' @ [125, 10]),
        Write ([123] @ quoted ''text'' @ [58] @ quoted ''!'' @ [125, 10]),
        End]
   \<and> res_ops (handler sample_engine sample_env rejecting_provider
              (post (action_body (str ''chat'')
                 (chat_payload [] (str ''Hello'') (str ''ar'')))))
     = [Status 500,
        Json (JObj [(str ''error'',
                     JStr (str ''An internal server error occurred: quota exceeded''))])]
   \<and> (\<exists>st v. json_responses 200
                 (res_ops (handler sample_engine sample_env sample_provider
                    (post (action_body (str ''solveProblem'')
                       (JObj [(str ''problem'', JStr (str ''2+2''))]))))) = [(st, v)]
             \<and> (st = 200 \<or> st = 500))
   \<and> postToAction sample_engine offline (str ''solveProblem'') JNull
       = Inl (TypeError (str ''Failed to fetch''))
   \<and> postToAction sample_engine (answering (JNum 7)) (str ''solveProblem'') JNull
       = postToAction sample_engine
           (\<lambda>r. if r = \<lparr> url = str ''/api/gemini'', http_method = str ''POST'',
                 content_type = str ''application/json'',
                 body = JObj [(str ''action'', JStr (str ''solveProblem'')),
                              (str ''payload'', JNull)] \<rparr>
                then answering (JNum 7) r else offline r)
           (str ''solveProblem'') JNull"
proof -
  let ?hist = "[\<lparr> msg_role = USER, msg_text = str ''Why?'' \<rparr>]"
  let ?p1 = "chat_payload ?hist (str ''Why?'') (str ''en'') :: int json"
  let ?p2 = "chat_payload [] (str ''Hello'') (str ''ar'') :: int json"
  let ?p3 = "JObj [(str ''problem'', JStr (str ''2+2''))] :: int json"
  let ?f = "\<lambda>r. if r = \<lparr> url = str ''/api/gemini'', http_method = str ''POST'',
                 content_type = str ''application/json'',
                 body = JObj [(str ''action'', JStr (str ''solveProblem'')),
                              (str ''payload'', JNull)] \<rparr>
                then answering (JNum 7) r else offline r"
  have m: "req_method (post b) = str ''POST''" for b by (simp add: post_def)
  have k: "API_KEY sample_env = Some (str ''key'')" "str ''key'' \<noteq> []"
    by (simp_all add: sample_env_def)
  have a: "get_prop sample_engine (req_body (post (action_body x p))) (str ''action'')
             = Inr (Some (JStr x))"
          "get_prop sample_engine (req_body (post (action_body x p))) (str ''payload'')
             = Inr (Some p)" for x p
    by (simp_all add: post_def action_body_def)
  have s1: "sendMessageStream sample_provider q = Inr ([Some (str ''Hi''), Some (str ''!'')], None)"
    for q by (simp add: sample_provider_def)
  have s2: "sendMessageStream rejecting_provider q = Inl (Error (str ''quota exceeded''))"
    for q by (simp add: rejecting_provider_def)
  have r: "stringify_text_record (Some (str ''Hi'')) = [123] @ quoted ''text'' @ [58] @ quoted ''Hi'' @ [125]"
    "stringify_text_record (Some (str ''!'')) = [123] @ quoted ''text'' @ [58] @ quoted ''!'' @ [125]"
    by (simp_all add: stringify_text_record_def QuoteJSONString_def quoted_def str_def
          quote_unit_def is_leading_surrogate_def is_trailing_surrogate_def)
  have o: "offline \<lparr> url = str ''/api/gemini'', http_method = str ''POST'',
                 content_type = str ''application/json'',
                 body = JObj [(str ''action'', JStr (str ''solveProblem'')),
                              (str ''payload'', JNull)] \<rparr> = Inl (TypeError (str ''Failed to fetch''))"
    by (simp add: offline_def)
  have q: "answering (JNum 7) \<lparr> url = str ''/api/gemini'', http_method = str ''POST'',
                 content_type = str ''application/json'',
                 body = JObj [(str ''action'', JStr (str ''solveProblem'')),
                              (str ''payload'', JNull)] \<rparr>
           = ?f \<lparr> url = str ''/api/gemini'', http_method = str ''POST'',
                 content_type = str ''application/json'',
                 body = JObj [(str ''action'', JStr (str ''solveProblem'')),
                              (str ''payload'', JNull)] \<rparr>"
    by simp
  from action_contract [OF m k a [of "str ''chat''" ?p1], where ai = sample_provider
         and a = "str ''solveProblem''" and p = JNull and fetch = offline and fetch' = offline
         and e' = "TypeError (str ''Failed to fetch'')" and hist = ?hist
         and msg = "str ''Why?''" and language = "str ''en''"
         and chunks = "[Some (str ''Hi''), Some (str ''!'')]"] s1 o
  have 1: "res_ops (handler sample_engine sample_env sample_provider
              (post (action_body (str ''chat'') ?p1)))
     = [SetHeader (str ''Content-Type'') (str ''text/plain; charset=utf-8''),
        SetHeader (str ''Transfer-Encoding'') (str ''chunked''),
        Write ([123] @ quoted ''text'' @ [58] @ quoted ''Hi'' @ [125, 10]),
        Write ([123] @ quoted ''text'' @ [58] @ quoted ''!'' @ [125, 10]),
        End]"
    and 4: "postToAction sample_engine offline (str ''solveProblem'') JNull
       = Inl (TypeError (str ''Failed to fetch''))"
    by (auto simp: r)
  from action_contract [OF m k a [of "str ''chat''" ?p2], where ai = rejecting_provider
         and a = "str ''solveProblem''" and p = JNull and fetch = "answering (JNum 7)"
         and fetch' = ?f and e' = "Error []"
         and hist = "[]" and msg = "str ''Hello''" and language = "str ''ar''"
         and e = "Error (str ''quota exceeded'')"] s2 q
  have 2: "res_ops (handler sample_engine sample_env rejecting_provider
              (post (action_body (str ''chat'') ?p2)))
     = [Status 500,
        Json (JObj [(str ''error'',
                     JStr (str ''An internal server error occurred: quota exceeded''))])]"
    and 5: "postToAction sample_engine (answering (JNum 7)) (str ''solveProblem'') JNull
       = postToAction sample_engine ?f (str ''solveProblem'') JNull"
    by (auto simp: str_def)
  from action_contract [OF m k a [of "str ''solveProblem''" ?p3], where ai = sample_provider
         and a = "[]" and p = JNull and fetch = offline and fetch' = offline
         and e' = "Error []", THEN conjunct2, THEN conjunct2, THEN conjunct1]
  have "(\<exists>v. json_responses 200
                 (res_ops (handler sample_engine sample_env sample_provider
                    (post (action_body (str ''solveProblem'') ?p3)))) = [(200, v)])
        \<or> (\<exists>v. json_responses 200
                 (res_ops (handler sample_engine sample_env sample_provider
                    (post (action_body (str ''solveProblem'') ?p3)))) = [(500, v)])"
    by auto
  then have 3: "\<exists>st v. json_responses 200
                 (res_ops (handler sample_engine sample_env sample_provider
                    (post (action_body (str ''solveProblem'') ?p3)))) = [(st, v)]
             \<and> (st = 200 \<or> st = 500)"
    by blast
  from 1 2 3 4 5 show ?thesis by blast
qed

section \<open>The chat client's stream reader\<close>

subsection \<open>Splitting at newlines\<close>

lemma split_newline_not_Nil [simp]: "split_newline s \<noteq> []"
  by (induction s) (auto split: list.splits)

lemma split_newline_no_newline:
  "10 \<notin> set s \<Longrightarrow> split_newline s = [s]"
  by (induction s) auto

lemma split_newline_last_no_newline: "10 \<notin> set (last (split_newline s))"
  by (induction s) (auto split: list.splits)

lemma split_newline_line:
  "10 \<notin> set l \<Longrightarrow> split_newline (l @ 10 # s) = l # split_newline s"
  by (induction l) auto

lemma split_newline_append_line:
  "10 \<notin> set l \<Longrightarrow>
   split_newline (l @ s) = (l @ hd (split_newline s)) # tl (split_newline s)"
proof (induction l)
  case Nil
  then show ?case by simp
next
  case (Cons c l)
  then show ?case by (auto split: list.splits)
qed

lemma split_newline_append:
  "split_newline (a @ b) =
     butlast (split_newline a) @ split_newline (last (split_newline a) @ b)"
proof (induction a)
  case Nil
  show ?case by simp
next
  case (Cons c a)
  show ?case
  proof (cases "c = 10")
    case True
    then show ?thesis using Cons by simp
  next
    case False
    obtain l ls where s: "split_newline a = l # ls"
      by (cases "split_newline a") auto
    show ?thesis
    proof (cases ls)
      case Nil
      with s have a: "split_newline a = [l]" by simp
      from Cons a have "split_newline (a @ b) = split_newline (l @ b)" by simp
      moreover have "10 \<notin> set l"
        using split_newline_last_no_newline [of a] a by simp
      ultimately show ?thesis
        using False a by (simp add: split_newline_append_line)
    next
      case (Cons l' ls')
      with s Cons.IH False show ?thesis by simp
    qed
  qed
qed

subsection \<open>The loop reads the lines of the whole text\<close>

lemma read_step_fields:
  assumes "decode (decoder_state st) v = (s, d')"
  shows "decoder_state (read_step eng decode st v) = d'"
    and "buffer (read_step eng decode st v) = last (split_newline (buffer st @ s))"
    and "modelResponseText (read_step eng decode st v) =
           fold (\<lambda>line acc. process_line eng acc line)
             (butlast (split_newline (buffer st @ s))) (modelResponseText st)"
  using assms by (simp_all add: read_step_def pop_or_empty_def Let_def)

text \<open>
  Whatever the chunks are, the loop leaves in \<open>modelResponseText\<close> what the lines of the
  whole decoded text give, one after the other, and in \<open>buffer\<close> the piece after the
  last newline.
\<close>

lemma read_steps:
  assumes "10 \<notin> set (buffer st)"
  shows "buffer (fold (\<lambda>v st. read_step eng decode st v) chunks st) =
           last (split_newline (buffer st @ decoded decode (decoder_state st) chunks))
       \<and> modelResponseText (fold (\<lambda>v st. read_step eng decode st v) chunks st) =
           fold (\<lambda>line acc. process_line eng acc line)
             (butlast (split_newline (buffer st @ decoded decode (decoder_state st) chunks)))
             (modelResponseText st)"
  using assms
proof (induction chunks arbitrary: st)
  case Nil
  then show ?case by (simp add: split_newline_no_newline)
next
  case (Cons v vs)
  obtain s d' where d: "decode (decoder_state st) v = (s, d')"
    by (cases "decode (decoder_state st) v")
  let ?st = "read_step eng decode st v"
  let ?rest = "decoded decode d' vs"
  note f = read_step_fields [where decode = decode and st = st and v = v and eng = eng, OF d]
  have "10 \<notin> set (buffer ?st)"
    by (simp add: f split_newline_last_no_newline)
  from Cons.IH [OF this]
  have ih: "buffer (fold (\<lambda>v st. read_step eng decode st v) vs ?st) =
              last (split_newline (buffer ?st @ ?rest))"
       "modelResponseText (fold (\<lambda>v st. read_step eng decode st v) vs ?st) =
           fold (\<lambda>line acc. process_line eng acc line)
             (butlast (split_newline (buffer ?st @ ?rest))) (modelResponseText ?st)"
    by (simp_all add: f)
  have split: "split_newline (buffer st @ decoded decode (decoder_state st) (v # vs)) =
          butlast (split_newline (buffer st @ s)) @ split_newline (buffer ?st @ ?rest)"
    using split_newline_append [of "buffer st @ s" ?rest] by (simp add: d f)
  show ?case
    unfolding split by (simp add: ih f butlast_append)
qed

lemma read_loop_lines:
  "modelResponseText (read_loop eng decode d0 chunks) =
     fold (\<lambda>line acc. process_line eng acc line)
       (butlast (split_newline (decoded decode d0 chunks))) []"
  "buffer (read_loop eng decode d0 chunks) = last (split_newline (decoded decode d0 chunks))"
  using read_steps [of "\<lparr> decoder_state = d0, buffer = [], modelResponseText = [] \<rparr>"
                       eng decode chunks]
  by (simp_all add: read_loop_def)

text \<open>The result depends on the chunks only through the text they decode to.\<close>

lemma read_loop_chunking:
  "decoded decode d0 chunks = decoded decode' d0' chunks' \<Longrightarrow>
   modelResponseText (read_loop eng decode d0 chunks) =
     modelResponseText (read_loop eng decode' d0' chunks')"
  by (simp add: read_loop_lines)

subsection \<open>The lines of a stream of records\<close>

lemma split_newline_records:
  assumes "\<forall>l \<in> set ls. 10 \<notin> set l"
  shows "split_newline (concat (map (\<lambda>l. l @ [10]) ls)) = ls @ [ [] ]"
  using assms by (induction ls) (simp_all add: split_newline_line)

lemma trim_Nil_iff: "trim s = [] \<longleftrightarrow> (\<forall>c \<in> set s. is_space c)"
proof
  assume "trim s = []"
  then have all: "\<forall>c \<in> set (dropWhile is_space s). is_space c"
    by (simp add: trim_def)
  have "dropWhile is_space s = []"
  proof (rule ccontr)
    assume ne: "dropWhile is_space s \<noteq> []"
    then have "\<not> is_space (hd (dropWhile is_space s))" by (rule hd_dropWhile)
    moreover have "hd (dropWhile is_space s) \<in> set (dropWhile is_space s)"
      using ne by simp
    ultimately show False using all by blast
  qed
  then show "\<forall>c \<in> set s. is_space c" by simp
next
  assume "\<forall>c \<in> set s. is_space c"
  then have e: "dropWhile is_space s = []" by simp
  show "trim s = []" unfolding trim_def e by simp
qed

lemma stringify_text_record_not_blank: "trim (stringify_text_record t) \<noteq> []"
proof -
  have "123 \<in> set (stringify_text_record t)"
    by (cases t) (simp_all add: stringify_text_record_def)
  moreover have "\<not> is_space 123" by (simp add: is_space_def)
  ultimately show ?thesis by (auto simp: trim_Nil_iff)
qed

lemma process_line_record:
  assumes "JSON_parse eng (stringify_text_record (Some t)) = Inr (JObj [(str ''text'', JStr t)])"
  shows "process_line eng acc (stringify_text_record (Some t)) = acc @ t"
  using assms by (simp add: process_line_def stringify_text_record_not_blank)

lemma fold_process_line_records:
  assumes "\<forall>t \<in> set ts. JSON_parse eng (stringify_text_record (Some t))
                            = Inr (JObj [(str ''text'', JStr t)])"
  shows "fold (\<lambda>line acc. process_line eng acc line)
           (map (\<lambda>t. stringify_text_record (Some t)) ts) acc = acc @ concat ts"
  using assms by (induction ts arbitrary: acc) (simp_all add: process_line_record)

text \<open>
  C6. Let the stream carry the records \<open>JSON.stringify({ text: t })\<close>, each followed
  by a newline, for the deltas \<open>ts\<close> in order, and let the engine's \<open>JSON.parse\<close> read
  each record back. Then for every list of chunks that the decoder turns into that text,
  however the chunks cut it, the loop ends with \<open>modelResponseText\<close> equal to the
  concatenation of the deltas in order, and with an empty buffer.
\<close>

theorem reassembly_independent_of_chunking:
  assumes "\<forall>t \<in> set ts. JSON_parse eng (stringify_text_record (Some t))
                            = Inr (JObj [(str ''text'', JStr t)])"
    and "decoded decode d0 chunks
           = concat (map (\<lambda>t. stringify_text_record (Some t) @ [10]) ts)"
  shows "modelResponseText (read_loop eng decode d0 chunks) = concat ts
         \<and> buffer (read_loop eng decode d0 chunks) = []"
proof -
  let ?records = "map (\<lambda>t. stringify_text_record (Some t)) ts"
  have "concat (map (\<lambda>t. stringify_text_record (Some t) @ [10]) ts)
          = concat (map (\<lambda>l. l @ [10]) ?records)"
    by (simp add: comp_def)
  moreover have "\<forall>l \<in> set ?records. 10 \<notin> set l"
    by (simp add: stringify_text_record_no_newline)
  ultimately have "split_newline (decoded decode d0 chunks) = ?records @ [ [] ]"
    using assms(2) split_newline_records by metis
  then show ?thesis
    using fold_process_line_records [OF assms(1), of "[]"]
    by (simp add: read_loop_lines)
qed

theorem reassembly_independent_of_chunking_witness:
  "modelResponseText
     (read_loop sample_engine ascii_decoder ()
        [ [123, 34] @ str ''te'',
         str ''xt'' @ [34, 58, 34] @ str ''Hi'' @ [34, 125, 10, 123, 34] @ str ''text'' @ [34, 58],
         [],
         [34] @ str ''!'' @ [34, 125, 10] ]) = str ''Hi!''
   \<and> modelResponseText
     (read_loop sample_engine ascii_decoder ()
        [ [123, 34] @ str ''text'' @ [34, 58, 34] @ str ''Hi'' @ [34, 125, 10, 123, 34]
         @ str ''text'' @ [34, 58, 34] @ str ''!'' @ [34, 125, 10] ]) = str ''Hi!''"
proof -
  let ?ts = "[str ''Hi'', str ''!'']"
  have r: "stringify_text_record (Some (str ''Hi''))
             = [123] @ quoted ''text'' @ [58] @ quoted ''Hi'' @ [125]"
    "stringify_text_record (Some (str ''!''))
             = [123] @ quoted ''text'' @ [58] @ quoted ''!'' @ [125]"
    by (simp_all add: stringify_text_record_def QuoteJSONString_def quoted_def str_def
          quote_unit_def is_leading_surrogate_def is_trailing_surrogate_def)
  have p: "\<forall>t \<in> set ?ts. JSON_parse sample_engine (stringify_text_record (Some t))
                            = Inr (JObj [(str ''text'', JStr t)])"
    by (simp add: r)
       (simp add: sample_engine_def sample_parse_def known_texts_def problems_text_def
          fact_text_def quoted_def str_def)
  have d1: "decoded ascii_decoder ()
        [ [123, 34] @ str ''te'',
         str ''xt'' @ [34, 58, 34] @ str ''Hi'' @ [34, 125, 10, 123, 34] @ str ''text'' @ [34, 58],
         [],
         [34] @ str ''!'' @ [34, 125, 10] ]
       = concat (map (\<lambda>t. stringify_text_record (Some t) @ [10]) ?ts)"
    by (simp add: r) (simp add: ascii_decoder_def quoted_def str_def)
  have d2: "decoded ascii_decoder ()
        [ [123, 34] @ str ''text'' @ [34, 58, 34] @ str ''Hi'' @ [34, 125, 10, 123, 34]
         @ str ''text'' @ [34, 58, 34] @ str ''!'' @ [34, 125, 10] ]
       = concat (map (\<lambda>t. stringify_text_record (Some t) @ [10]) ?ts)"
    by (simp add: r) (simp add: ascii_decoder_def quoted_def str_def)
  show ?thesis
    using reassembly_independent_of_chunking [OF p d1]
          reassembly_independent_of_chunking [OF p d2]
    by (simp add: str_def)
qed

subsection \<open>Lines that are skipped\<close>

lemma process_line_append: "process_line eng acc line = acc @ process_line eng [] line"
  by (simp add: process_line_def split: sum.splits)

lemma fold_process_line:
  "fold (\<lambda>line acc. process_line eng acc line) lines acc =
     acc @ concat (map (process_line eng []) lines)"
proof (induction lines arbitrary: acc)
  case Nil
  show ?case by simp
next
  case (Cons l ls)
  show ?case by (simp add: Cons.IH process_line_append [of eng acc l])
qed

text \<open>
  C10. A line is skipped, leaving \<open>modelResponseText\<close> as it was, when it is blank, when
  \<open>JSON.parse\<close> throws on it, when reading \<open>text\<close> of the parsed value throws, when
  that \<open>text\<close> is not truthy, and when its conversion to a string throws, as it does
  for an object that has a key \<open>toString\<close> of its own; a line that parses to a value
  with a truthy \<open>text\<close> that converts to a string appends that string (a string
  itself, \<open>true\<close>, \<open>[object Object]\<close> for an object without such a key), and a line
  that changes \<open>modelResponseText\<close> is such a line. No line stops
  the loop: for a stream of newline-terminated lines, \<open>modelResponseText\<close> ends as the
  concatenation of what each line gives on its own, the skipped lines giving nothing.
\<close>

theorem reader_skips_bad_lines:
  "(trim line = []
      \<or> (\<exists>m. JSON_parse eng line = Inl m)
      \<or> (\<exists>v. JSON_parse eng line = Inr v
             \<and> ((\<exists>e. get_prop eng (Some v) (str ''text'') = Inl e)
                \<or> (\<exists>t. get_prop eng (Some v) (str ''text'') = Inr t \<and> \<not> truthy eng t)
                \<or> (\<exists>t e. get_prop eng (Some v) (str ''text'') = Inr (Some t)
                          \<and> toString eng t = Inl e)))
      \<longrightarrow> process_line eng acc line = acc)
   \<and> (trim line \<noteq> [] \<and> JSON_parse eng line = Inr v
        \<and> get_prop eng (Some v) (str ''text'') = Inr (Some t)
        \<and> truthy eng (Some t) \<and> toString eng t = Inr s
      \<longrightarrow> process_line eng acc line = acc @ s)
   \<and> (trim line \<noteq> [] \<and> JSON_parse eng line = Inr v
        \<and> get_prop eng (Some v) (str ''text'') = Inr (Some t)
      \<longrightarrow> (t = JStr s \<longrightarrow> process_line eng acc line = acc @ s)
        \<and> (t = JNull \<or> t = JBool False \<longrightarrow> process_line eng acc line = acc)
        \<and> (t = JBool True \<longrightarrow> process_line eng acc line = acc @ str ''true'')
        \<and> (t = JObj kvs \<and> map_of kvs (str ''toString'') = None \<longrightarrow>
             process_line eng acc line = acc @ str ''[object Object]'')
        \<and> (t = JObj kvs \<and> map_of kvs (str ''toString'') \<noteq> None \<longrightarrow>
             process_line eng acc line = acc))
   \<and> (process_line eng acc line \<noteq> acc \<longrightarrow>
        (\<exists>v t s. trim line \<noteq> [] \<and> JSON_parse eng line = Inr v
              \<and> get_prop eng (Some v) (str ''text'') = Inr (Some t)
              \<and> truthy eng (Some t) \<and> toString eng t = Inr s
              \<and> process_line eng acc line = acc @ s))
   \<and> ((\<forall>l \<in> set lines. 10 \<notin> set l)
        \<and> decoded decode d0 chunks = concat (map (\<lambda>l. l @ [10]) lines) \<longrightarrow>
        modelResponseText (read_loop eng decode d0 chunks)
          = concat (map (process_line eng []) lines))"
proof (intro conjI)
  show "(trim line \<noteq> [] \<and> JSON_parse eng line = Inr v
        \<and> get_prop eng (Some v) (str ''text'') = Inr (Some t)
      \<longrightarrow> (t = JStr s \<longrightarrow> process_line eng acc line = acc @ s)
        \<and> (t = JNull \<or> t = JBool False \<longrightarrow> process_line eng acc line = acc)
        \<and> (t = JBool True \<longrightarrow> process_line eng acc line = acc @ str ''true'')
        \<and> (t = JObj kvs \<and> map_of kvs (str ''toString'') = None \<longrightarrow>
             process_line eng acc line = acc @ str ''[object Object]'')
        \<and> (t = JObj kvs \<and> map_of kvs (str ''toString'') \<noteq> None \<longrightarrow>
             process_line eng acc line = acc))"
    by (auto simp: process_line_def)
next
  show "trim line = []
      \<or> (\<exists>m. JSON_parse eng line = Inl m)
      \<or> (\<exists>v. JSON_parse eng line = Inr v
             \<and> ((\<exists>e. get_prop eng (Some v) (str ''text'') = Inl e)
                \<or> (\<exists>t. get_prop eng (Some v) (str ''text'') = Inr t \<and> \<not> truthy eng t)
                \<or> (\<exists>t e. get_prop eng (Some v) (str ''text'') = Inr (Some t)
                          \<and> toString eng t = Inl e)))
      \<longrightarrow> process_line eng acc line = acc"
    by (auto simp: process_line_def)
next
  show "trim line \<noteq> [] \<and> JSON_parse eng line = Inr v
        \<and> get_prop eng (Some v) (str ''text'') = Inr (Some t)
        \<and> truthy eng (Some t) \<and> toString eng t = Inr s
      \<longrightarrow> process_line eng acc line = acc @ s"
    by (simp add: process_line_def)
next
  show "process_line eng acc line \<noteq> acc \<longrightarrow>
        (\<exists>v t s. trim line \<noteq> [] \<and> JSON_parse eng line = Inr v
              \<and> get_prop eng (Some v) (str ''text'') = Inr (Some t)
              \<and> truthy eng (Some t) \<and> toString eng t = Inr s
              \<and> process_line eng acc line = acc @ s)"
  proof
  assume changed: "process_line eng acc line \<noteq> acc"
  then obtain v where v: "trim line \<noteq> []" "JSON_parse eng line = Inr v"
    by (cases "JSON_parse eng line") (auto simp: process_line_def split: if_splits)
  with changed obtain x where x: "get_prop eng (Some v) (str ''text'') = Inr x" "truthy eng x"
    by (cases "get_prop eng (Some v) (str ''text'')")
       (auto simp: process_line_def split: if_splits)
  then obtain t where t: "x = Some t" by (cases x) auto
  with changed v x obtain s where s: "toString eng t = Inr s"
    by (cases "toString eng t") (auto simp: process_line_def)
  with v x t have "process_line eng acc line = acc @ s"
    by (simp add: process_line_def)
  with v x t s show "\<exists>v t s. trim line \<noteq> [] \<and> JSON_parse eng line = Inr v
              \<and> get_prop eng (Some v) (str ''text'') = Inr (Some t)
              \<and> truthy eng (Some t) \<and> toString eng t = Inr s
              \<and> process_line eng acc line = acc @ s"
    by auto
  qed
next
  show "(\<forall>l \<in> set lines. 10 \<notin> set l)
        \<and> decoded decode d0 chunks = concat (map (\<lambda>l. l @ [10]) lines) \<longrightarrow>
        modelResponseText (read_loop eng decode d0 chunks)
          = concat (map (process_line eng []) lines)"
  proof
  assume a: "(\<forall>l \<in> set lines. 10 \<notin> set l)
        \<and> decoded decode d0 chunks = concat (map (\<lambda>l. l @ [10]) lines)"
  then have "split_newline (decoded decode d0 chunks) = lines @ [ [] ]"
    by (simp add: split_newline_records)
  then show "modelResponseText (read_loop eng decode d0 chunks)
          = concat (map (process_line eng []) lines)"
    by (simp add: read_loop_lines fold_process_line)
  qed
qed

theorem reader_skips_bad_lines_witness:
  "modelResponseText
     (read_loop sample_engine ascii_decoder ()
        [ [10] @ str ''not json'' @ [10] @ str ''nu'',
         str ''ll'' @ [10, 123, 125, 10, 123] @ quoted ''text'' @ [58] @ quoted ''Hi''
         @ [125, 10] @ str ''7'' @ [10, 123] @ quoted ''text'' @ [58] @ str ''7'' @ [125, 10],
         shadowed_text @ [10] ])
     = str ''Hi7''
   \<and> process_line sample_engine (str ''Hi'') (str ''not json'') = str ''Hi''
   \<and> process_line sample_engine (str ''Hi'') shadowed_text = str ''Hi''
   \<and> process_line sample_engine (str ''Hi'') ([123] @ quoted ''text'' @ [58] @ str ''7'' @ [125])
       = str ''Hi7''"
proof -
  let ?hi = "[123] @ quoted ''text'' @ [58] @ quoted ''Hi'' @ [125]"
  let ?seven = "[123] @ quoted ''text'' @ [58] @ str ''7'' @ [125]"
  let ?lines = "[ [], str ''not json'', str ''null'', str ''{}'', ?hi, str ''7'', ?seven,
                 shadowed_text]"
  let ?chunks = "[ [10] @ str ''not json'' @ [10] @ str ''nu'',
         str ''ll'' @ [10, 123, 125, 10, 123] @ quoted ''text'' @ [58] @ quoted ''Hi''
         @ [125, 10] @ str ''7'' @ [10, 123] @ quoted ''text'' @ [58] @ str ''7'' @ [125, 10],
         shadowed_text @ [10] ]"
  note defs = sample_engine_def sample_parse_def known_texts_def problems_text_def
    fact_text_def shadowed_text_def quoted_def str_def
  have parse: "JSON_parse sample_engine (str ''not json'') = Inl (str ''Unexpected token'')"
    "JSON_parse sample_engine ?seven = Inr (JObj [(str ''text'', JNum 7)])"
    "JSON_parse sample_engine shadowed_text
       = Inr (JObj [(str ''text'', JObj [(str ''toString'', JNum 7)])])"
    by (simp_all add: defs)
  have each: "map (process_line sample_engine []) ?lines
                = [ [], [], [], [], str ''Hi'', [], str ''7'', [] ]"
    by (simp add: process_line_def trim_def is_space_def defs)
  have l: "\<forall>l \<in> set ?lines. 10 \<notin> set l"
    by (simp add: shadowed_text_def quoted_def str_def)
  have d: "decoded ascii_decoder () ?chunks = concat (map (\<lambda>l. l @ [10]) ?lines)"
    by (simp add: ascii_decoder_def shadowed_text_def quoted_def str_def)
  note inst = reader_skips_bad_lines [where eng = sample_engine and acc = "str ''Hi''"
                 and decode = ascii_decoder and ?d0.0 = "()"]
  from inst [where line = "str ''not json''" and lines = ?lines and chunks = ?chunks
               and v = JNull and t = JNull and s = "[]" and kvs = "[]"] parse(1) l d
  have 1: "process_line sample_engine (str ''Hi'') (str ''not json'') = str ''Hi''"
    and 3: "modelResponseText (read_loop sample_engine ascii_decoder () ?chunks)
          = concat (map (process_line sample_engine []) ?lines)"
    by blast+
  have sh: "get_prop sample_engine
              (Some (JObj [(str ''text'', JObj [(str ''toString'', JNum 7)])])) (str ''text'')
              = Inr (Some (JObj [(str ''toString'', JNum 7)]))"
    "toString sample_engine (JObj [(str ''toString'', JNum 7 :: int json)])
       = Inl (TypeError (typeErrorMessage sample_engine (str ''toString'')))"
    by simp_all
  have sk: "trim shadowed_text \<noteq> []"
    "map_of [(str ''toString'', JNum 7 :: int json)] (str ''toString'') \<noteq> None"
    by (simp_all add: trim_def is_space_def shadowed_text_def quoted_def str_def)
  from inst [where line = shadowed_text and lines = "[]" and chunks = "[]"
               and v = "JObj [(str ''text'', JObj [(str ''toString'', JNum 7)])]"
               and t = "JObj [(str ''toString'', JNum 7)]" and s = "[]"
               and kvs = "[(str ''toString'', JNum 7)]"] parse(3) sh(1) sk
  have 4: "process_line sample_engine (str ''Hi'') shadowed_text = str ''Hi''"
    by blast
  have sv: "trim ?seven \<noteq> []"
    "get_prop sample_engine (Some (JObj [(str ''text'', JNum 7)])) (str ''text'')
       = Inr (Some (JNum 7))"
    "truthy sample_engine (Some (JNum 7))"
    "toString sample_engine (JNum 7) = Inr (str ''7'')"
    by (simp_all add: trim_def is_space_def sample_engine_def quoted_def str_def)
  from inst [where line = ?seven and lines = "[]" and chunks = "[]"
               and v = "JObj [(str ''text'', JNum 7)]" and t = "JNum 7" and s = "str ''7''"
               and kvs = "[]"]
       parse(2) sv
  have 2: "process_line sample_engine (str ''Hi'') ?seven = str ''Hi'' @ str ''7''"
    by blast
  from 3 have "modelResponseText (read_loop sample_engine ascii_decoder () ?chunks) = str ''Hi7''"
    unfolding each by (simp add: str_def)
  with 1 2 4 show ?thesis by (simp add: str_def)
qed

end
